theory Spec2Isabelle
  imports Main "HOL-Library.Char_ord" "HOL-Library.List_Lexorder" "HOL-Library.Multiset"
begin

section \<open>Python string primitives used by the honeypot\<close>

text \<open>
  Text is modelled as \<^typ>\<open>string\<close>, one \<^typ>\<open>char\<close> per code point (code points
  below 256).  The functions below follow the behaviour of the Python built-ins of the
  same name on such strings.
\<close>

text \<open>\<^verbatim>\<open>s.split(sep)\<close> for a one-character separator: never returns the empty list.\<close>

fun split_on :: "char \<Rightarrow> string \<Rightarrow> string list" where
  "split_on c [] = [[]]"
| "split_on c (x # xs) =
     (if x = c then [] # split_on c xs
      else (case split_on c xs of
              [] \<Rightarrow> [[x]]
            | p # ps \<Rightarrow> (x # p) # ps))"

text \<open>\<^verbatim>\<open>sep.join(parts)\<close>.\<close>

fun join :: "string \<Rightarrow> string list \<Rightarrow> string" where
  "join sep [] = []"
| "join sep [x] = x"
| "join sep (x # y # ys) = x @ sep @ join sep (y # ys)"

text \<open>\<^verbatim>\<open>s.strip(chars)\<close>, \<^verbatim>\<open>s.rstrip(chars)\<close>: drop leading and trailing characters of the set.\<close>

definition rstrip_chars :: "string \<Rightarrow> string \<Rightarrow> string" where
  "rstrip_chars chars s = rev (dropWhile (\<lambda>c. c \<in> set chars) (rev s))"

definition strip_chars :: "string \<Rightarrow> string \<Rightarrow> string" where
  "strip_chars chars s = rstrip_chars chars (dropWhile (\<lambda>c. c \<in> set chars) s)"

text \<open>\<^verbatim>\<open>s.startswith(p)\<close>.\<close>

definition startswith :: "string \<Rightarrow> string \<Rightarrow> bool" where
  "startswith s p = (take (length p) s = p)"

text \<open>\<^verbatim>\<open>str.isspace\<close> on the code points below 256: the characters that \<^verbatim>\<open>s.split()\<close>
  and \<^verbatim>\<open>s.strip()\<close> treat as white space.\<close>

definition is_space :: "char \<Rightarrow> bool" where
  "is_space c = (let n = (of_char c :: nat) in
     (9 \<le> n \<and> n \<le> 13) \<or> (28 \<le> n \<and> n \<le> 32) \<or> n = 133 \<or> n = 160)"

text \<open>\<^verbatim>\<open>s.strip()\<close> with no argument.\<close>

definition strip :: "string \<Rightarrow> string" where
  "strip s = rev (dropWhile is_space (rev (dropWhile is_space s)))"

text \<open>\<^verbatim>\<open>s.split()\<close> with no argument: the maximal runs of non-space characters.\<close>

function split_ws :: "string \<Rightarrow> string list" where
  "split_ws [] = []"
| "split_ws (c # cs) =
     (if is_space c then split_ws cs
      else takeWhile (\<lambda>x. \<not> is_space x) (c # cs) # split_ws (dropWhile (\<lambda>x. \<not> is_space x) cs))"
  by pat_completeness auto
termination
  by (relation "measure length") (auto simp: length_dropWhile_le less_Suc_eq_le)

declare split_ws.simps [simp del]

text \<open>
  \<^verbatim>\<open>s.lower()\<close> and \<^verbatim>\<open>s.upper()\<close> on the code points below 256: the ASCII and the Latin-1
  letters.  \<^verbatim>\<open>upper\<close> turns the sharp s (223) into \<^verbatim>\<open>SS\<close>; the upper-case forms of
  181 and 255 lie beyond code point 255 and are not letters of any keyword, so these two
  characters are left as they are.
\<close>

definition lower_char :: "char \<Rightarrow> char" where
  "lower_char c = (let n = (of_char c :: nat) in
     if (65 \<le> n \<and> n \<le> 90) \<or> (192 \<le> n \<and> n \<le> 214) \<or> (216 \<le> n \<and> n \<le> 222)
     then char_of (n + 32) else c)"

definition upper_chars :: "char \<Rightarrow> string" where
  "upper_chars c = (let n = (of_char c :: nat) in
     if n = 223 then ''SS''
     else if (97 \<le> n \<and> n \<le> 122) \<or> (224 \<le> n \<and> n \<le> 246) \<or> (248 \<le> n \<and> n \<le> 254)
     then [char_of (n - 32)] else [c])"

definition lower :: "string \<Rightarrow> string" where
  "lower s = map lower_char s"

definition upper :: "string \<Rightarrow> string" where
  "upper s = concat (map upper_chars s)"

text \<open>\<^verbatim>\<open>str(n)\<close> for an integer: decimal digits, a minus sign when negative.\<close>

definition digit_char :: "nat \<Rightarrow> char" where
  "digit_char d = ''0123456789'' ! d"

function str_nat :: "nat \<Rightarrow> string" where
  "str_nat n = (if n < 10 then [digit_char n] else str_nat (n div 10) @ [digit_char (n mod 10)])"
  by pat_completeness auto
termination
  by (relation "measure id") auto

declare str_nat.simps [simp del]

definition str_int :: "int \<Rightarrow> string" where
  "str_int i = (if i < 0 then CHR ''-'' # str_nat (nat (- i)) else str_nat (nat i))"

text \<open>\<^verbatim>\<open>s.rjust(w, fill)\<close> (also the format \<^verbatim>\<open>{s:>w}\<close>) and \<^verbatim>\<open>{s:<w}\<close>.\<close>

definition rjust :: "nat \<Rightarrow> char \<Rightarrow> string \<Rightarrow> string" where
  "rjust w fill s = replicate (w - length s) fill @ s"

definition ljust :: "nat \<Rightarrow> char \<Rightarrow> string \<Rightarrow> string" where
  "ljust w fill s = s @ replicate (w - length s) fill"

text \<open>\<^verbatim>\<open>len(s.encode("utf-8"))\<close>: one byte below code point 128, two bytes from 128 to 255.\<close>

definition utf8_len :: "string \<Rightarrow> nat" where
  "utf8_len s = sum_list (map (\<lambda>c. if (of_char c :: nat) < 128 then 1 else 2) s)"

text \<open>The first line of a text: everything before the first line feed.\<close>

definition first_line :: "string \<Rightarrow> string" where
  "first_line s = takeWhile (\<lambda>c. c \<noteq> CHR 0x0A) s"

text \<open>
  \<^verbatim>\<open>int(s)\<close> for a string.  The white space that \<^verbatim>\<open>int\<close> ignores around the number is
  narrower than that of \<^verbatim>\<open>strip\<close>: the ASCII white space (9 to 13 and 32) and, of the
  code points from 128 to 255, the two spaces 133 and 160; the separators 28 to 31 are
  not ignored.  Then come an optional sign and decimal digits, where single underscores
  may stand between digits.  A string with more digits than \<open>max_str_digits\<close>, the
  default limit of the interpreter (which the honeypot never changes), is refused as
  well, leading zeros counted.  \<open>None\<close> is the \<^verbatim>\<open>ValueError\<close>.
\<close>

definition is_int_space :: "char \<Rightarrow> bool" where
  "is_int_space c = (let n = (of_char c :: nat) in
     (9 \<le> n \<and> n \<le> 13) \<or> n = 32 \<or> n = 133 \<or> n = 160)"

definition int_strip :: "string \<Rightarrow> string" where
  "int_strip s = rev (dropWhile is_int_space (rev (dropWhile is_int_space s)))"

definition is_digit :: "char \<Rightarrow> bool" where
  "is_digit c = (let n = (of_char c :: nat) in 48 \<le> n \<and> n \<le> 57)"

fun digits_ok :: "string \<Rightarrow> bool" where
  "digits_ok [] = False"
| "digits_ok [c] = is_digit c"
| "digits_ok (c # d # rest) =
     (is_digit c \<and> (if d = CHR ''_'' then digits_ok rest else digits_ok (d # rest)))"

definition max_str_digits :: nat where
  "max_str_digits = 4300"

text \<open>The digits of a number, underscores left out.\<close>

definition digit_chars :: "string \<Rightarrow> string" where
  "digit_chars ds = filter (\<lambda>c. c \<noteq> CHR ''_'') ds"

definition digits_value :: "string \<Rightarrow> int" where
  "digits_value ds = foldl (\<lambda>acc c. acc * 10 + (int (of_char c) - 48)) 0 (digit_chars ds)"

text \<open>The number after the sign: its syntax, the limit on its length, its value.\<close>

definition parse_digits :: "string \<Rightarrow> int option" where
  "parse_digits ds =
     (if digits_ok ds \<and> length (digit_chars ds) \<le> max_str_digits
      then Some (digits_value ds) else None)"

definition py_int :: "string \<Rightarrow> int option" where
  "py_int s =
     (case int_strip s of
        [] \<Rightarrow> None
      | c # rest \<Rightarrow>
          if c = CHR ''-'' then map_option uminus (parse_digits rest)
          else if c = CHR ''+'' then parse_digits rest
          else parse_digits (c # rest))"

text \<open>\<^verbatim>\<open>s.splitlines()\<close>: the line boundaries among the code points below 256 are
  \<^verbatim>\<open>\n\<close>, \<^verbatim>\<open>\r\<close>, \<^verbatim>\<open>\r\n\<close>, \<^verbatim>\<open>\v\<close>, \<^verbatim>\<open>\f\<close>, the separators 28 to 30 and 133.\<close>

definition is_linebreak :: "char \<Rightarrow> bool" where
  "is_linebreak c = (let n = (of_char c :: nat) in
     (10 \<le> n \<and> n \<le> 13) \<or> (28 \<le> n \<and> n \<le> 30) \<or> n = 133)"

fun splitlines_from :: "string \<Rightarrow> string \<Rightarrow> string list" where
  "splitlines_from cur [] = (if cur = [] then [] else [cur])"
| "splitlines_from cur [c] = (if is_linebreak c then [cur] else [cur @ [c]])"
| "splitlines_from cur (c # d # rest) =
     (if c = CHR 0x0D \<and> d = CHR 0x0A then cur # splitlines_from [] rest
      else if is_linebreak c then cur # splitlines_from [] (d # rest)
      else splitlines_from (cur @ [c]) (d # rest))"

definition splitlines :: "string \<Rightarrow> string list" where
  "splitlines s = splitlines_from [] s"

section \<open>Dictionaries in insertion order\<close>

text \<open>
  A Python \<^verbatim>\<open>dict\<close> keeps its keys in insertion order; it is modelled as an association
  list with distinct keys.  \<^verbatim>\<open>d[k] = v\<close> replaces the value in place when the key is
  present and appends the pair otherwise.
\<close>

definition dict_set :: "'k \<Rightarrow> 'v \<Rightarrow> ('k \<times> 'v) list \<Rightarrow> ('k \<times> 'v) list" where
  "dict_set k v d =
     (case map_of d k of
        None \<Rightarrow> d @ [(k, v)]
      | Some old \<Rightarrow> map (\<lambda>kv. if fst kv = k then (k, v) else kv) d)"

text \<open>\<^verbatim>\<open>d.setdefault(k, v)\<close>.\<close>

definition setdefault :: "'k \<Rightarrow> 'v \<Rightarrow> ('k \<times> 'v) list \<Rightarrow> ('k \<times> 'v) list" where
  "setdefault k v d = (case map_of d k of None \<Rightarrow> d @ [(k, v)] | Some old \<Rightarrow> d)"

text \<open>\<^verbatim>\<open>{**d, **e}\<close>: the pairs of \<open>e\<close> are stored into \<open>d\<close> one after the other.\<close>

definition dict_update :: "('k \<times> 'v) list \<Rightarrow> ('k \<times> 'v) list \<Rightarrow> ('k \<times> 'v) list" where
  "dict_update d e = foldl (\<lambda>acc kv. dict_set (fst kv) (snd kv) acc) d e"

definition dict_keys :: "('k \<times> 'v) list \<Rightarrow> 'k set" where
  "dict_keys d = fst ` set d"

section \<open>The virtual filesystem: path normalisation\<close>

text \<open>The comprehension \<^verbatim>\<open>[part for part in cwd.strip("/").split("/") if part]\<close>.\<close>

definition cwd_parts :: "string \<Rightarrow> string list" where
  "cwd_parts cwd = filter (\<lambda>part. part \<noteq> []) (split_on CHR ''/'' (strip_chars ''/'' cwd))"

text \<open>The \<^verbatim>\<open>for part in path.split("/")\<close> loop of \<^verbatim>\<open>FakeFilesystem.normalize\<close>.\<close>

fun normalize_loop :: "string list \<Rightarrow> string list \<Rightarrow> string list" where
  "normalize_loop base_parts [] = base_parts"
| "normalize_loop base_parts (part # rest) =
     (if part = [] \<or> part = ''.'' then normalize_loop base_parts rest
      else if part = ''..'' then
        normalize_loop (if base_parts \<noteq> [] then butlast base_parts else base_parts) rest
      else normalize_loop (base_parts @ [part]) rest)"

definition normalize :: "string \<Rightarrow> string \<Rightarrow> string" where
  "normalize path0 cwd =
     (let path = (if path0 = [] then ''.'' else path0);
          base_parts = (if startswith path ''/'' then [] else cwd_parts cwd)
      in ''/'' @ join ''/'' (normalize_loop base_parts (split_on CHR ''/'' path)))"

text \<open>A path component that survives normalisation unchanged.\<close>

definition plain_part :: "string \<Rightarrow> bool" where
  "plain_part p = (p \<noteq> [] \<and> CHR ''/'' \<notin> set p \<and> p \<noteq> ''.'' \<and> p \<noteq> ''..'')"

text \<open>The working directories on which normalisation is stable: no component of
  \<open>cwd\<close> is \<open>.\<close> or \<open>..\<close>.\<close>

definition dotfree_cwd :: "string \<Rightarrow> bool" where
  "dotfree_cwd cwd = list_all (\<lambda>p. p \<noteq> ''.'' \<and> p \<noteq> ''..'') (cwd_parts cwd)"

section \<open>The virtual filesystem: nodes\<close>

text \<open>The fields of a \<^verbatim>\<open>datetime\<close> that \<^verbatim>\<open>format_ls_time\<close> reads.\<close>

record datetime =
  dt_month :: nat
  dt_day :: nat
  dt_hour :: nat
  dt_minute :: nat

text \<open>
  A \<^verbatim>\<open>Node\<close> is a file or a directory.  The dictionary \<^verbatim>\<open>children\<close> maps each
  child's name to the child, and is built with \<^verbatim>\<open>Node(child_name, ...)\<close>, so a key is always
  the \<open>name\<close> of its value: the dictionary is the list of children, each carrying its key.
\<close>

datatype node =
    File (name: string) (mode: string) (owner: string) (grp: string) (modified: datetime)
      (content: string) (size_override: "int option")
  | Directory (name: string) (mode: string) (owner: string) (grp: string) (modified: datetime)
      (children: "node list")

fun is_dir :: "node \<Rightarrow> bool" where
  "is_dir (Directory _ _ _ _ _ _) = True"
| "is_dir (File _ _ _ _ _ _ _) = False"

text \<open>The property \<^verbatim>\<open>Node.size\<close>.\<close>

fun node_size :: "node \<Rightarrow> int" where
  "node_size (Directory _ _ _ _ _ cs) = sum_list (map node_size cs)"
| "node_size (File _ _ _ _ _ text ov) =
     (case ov of Some n \<Rightarrow> n | None \<Rightarrow> int (utf8_len text))"

text \<open>
  A reference to a node of the tree: the node and the chain of its \<^verbatim>\<open>parent\<close>
  back-references, nearest first (empty for the root).
\<close>

datatype ref = Ref (node: node) (ancestors: "node list")

definition parent :: "ref \<Rightarrow> ref option" where
  "parent r = (case ancestors r of [] \<Rightarrow> None | p # ps \<Rightarrow> Some (Ref p ps))"

datatype fs_error = NodeNotFound string | FilesystemError string

text \<open>\<^verbatim>\<open>str(exc)\<close>: the argument the exception was raised with.\<close>

fun exc_str :: "fs_error \<Rightarrow> string" where
  "exc_str (NodeNotFound m) = m"
| "exc_str (FilesystemError m) = m"

text \<open>\<^verbatim>\<open>isinstance\<close>: \<^verbatim>\<open>NodeNotFound\<close> is a subclass of \<^verbatim>\<open>FilesystemError\<close>.\<close>

fun isinstance_FilesystemError :: "fs_error \<Rightarrow> bool" where
  "isinstance_FilesystemError (NodeNotFound _) = True"
| "isinstance_FilesystemError (FilesystemError _) = True"

fun isinstance_NodeNotFound :: "fs_error \<Rightarrow> bool" where
  "isinstance_NodeNotFound (NodeNotFound _) = True"
| "isinstance_NodeNotFound (FilesystemError _) = False"

definition child :: "ref \<Rightarrow> string \<Rightarrow> fs_error + ref" where
  "child r nm =
     (if \<not> is_dir (node r) then Inl (FilesystemError (name (node r) @ '' is not a directory''))
      else (case find (\<lambda>c. name c = nm) (children (node r)) of
              None \<Rightarrow> Inl (NodeNotFound nm)
            | Some c \<Rightarrow> Inr (Ref c (node r # ancestors r))))"

definition get_path :: "ref \<Rightarrow> string" where
  "get_path r =
     ''/'' @ join ''/'' (rev (map name (takeWhile (\<lambda>n. name n \<noteq> []) (node r # ancestors r))))"

datatype filesystem = FakeFilesystem (root: node)

text \<open>The loop \<^verbatim>\<open>for part in parts: current = current.child(part)\<close>.\<close>

fun walk :: "ref \<Rightarrow> string list \<Rightarrow> fs_error + ref" where
  "walk current [] = Inr current"
| "walk current (part # parts) =
     (case child current part of
        Inl e \<Rightarrow> Inl e
      | Inr c \<Rightarrow> walk c parts)"

definition resolve :: "filesystem \<Rightarrow> string \<Rightarrow> string \<Rightarrow> fs_error + ref" where
  "resolve fs path cwd =
     (let normalized = normalize path cwd in
      if normalized = ''/'' then Inr (Ref (root fs) [])
      else walk (Ref (root fs) [])
             (filter (\<lambda>part. part \<noteq> []) (split_on CHR ''/'' (strip_chars ''/'' normalized))))"

definition list_directory :: "filesystem \<Rightarrow> string \<Rightarrow> string \<Rightarrow> bool \<Rightarrow> fs_error + ref list" where
  "list_directory fs path cwd include_hidden =
     (case resolve fs path cwd of
        Inl e \<Rightarrow> Inl e
      | Inr r \<Rightarrow>
          if \<not> is_dir (node r) then Inl (FilesystemError (get_path r @ '' is not a directory''))
          else Inr (map (\<lambda>c. Ref c (node r # ancestors r))
                      (filter (\<lambda>c. \<not> (\<not> include_hidden \<and> startswith (name c) ''.''))
                         (sort_key name (children (node r))))))"

section \<open>The virtual filesystem: rendering\<close>

definition perm_table :: "char \<Rightarrow> string" where
  "perm_table d =
     (if d = CHR ''0'' then ''---'' else if d = CHR ''1'' then ''--x''
      else if d = CHR ''2'' then ''-w-'' else if d = CHR ''3'' then ''-wx''
      else if d = CHR ''4'' then ''r--'' else if d = CHR ''5'' then ''r-x''
      else if d = CHR ''6'' then ''rw-'' else ''rwx'')"

definition to_unix_mode :: "string \<Rightarrow> string \<Rightarrow> string" where
  "to_unix_mode prefix m =
     prefix @ concat (map perm_table (rjust 3 CHR ''7'' (drop (length m - 3) m)))"

definition month_abbr :: "nat \<Rightarrow> string" where
  "month_abbr m =
     (if 1 \<le> m \<and> m \<le> 12
      then [''Jan'', ''Feb'', ''Mar'', ''Apr'', ''May'', ''Jun'',
            ''Jul'', ''Aug'', ''Sep'', ''Oct'', ''Nov'', ''Dec''] ! (m - 1)
      else [])"

definition two_digits :: "nat \<Rightarrow> string" where
  "two_digits n = rjust 2 CHR ''0'' (str_nat n)"

definition format_ls_time :: "datetime \<Rightarrow> string" where
  "format_ls_time v =
     month_abbr (dt_month v) @ '' '' @ rjust 2 CHR '' '' (str_nat (dt_day v)) @ '' ''
       @ two_digits (dt_hour v) @ '':'' @ two_digits (dt_minute v)"

definition name_or_slash :: "node \<Rightarrow> string" where
  "name_or_slash n = (if name n \<noteq> [] then name n else ''/'')"

definition describe_node :: "ref \<Rightarrow> bool \<Rightarrow> string" where
  "describe_node r detailed =
     (if \<not> detailed then name_or_slash (node r)
      else to_unix_mode (if is_dir (node r) then ''d'' else ''-'') (mode (node r))
             @ '' 1 '' @ owner (node r) @ '' '' @ grp (node r) @ '' ''
             @ rjust 6 CHR '' '' (str_int (node_size (node r))) @ '' ''
             @ format_ls_time (modified (node r)) @ '' '' @ name_or_slash (node r))"

definition describe_special :: "ref \<Rightarrow> bool \<Rightarrow> string \<Rightarrow> string" where
  "describe_special r detailed nm =
     (if \<not> detailed then nm
      else to_unix_mode ''d'' (mode (node r))
             @ '' 1 '' @ owner (node r) @ '' '' @ grp (node r) @ '' ''
             @ rjust 6 CHR '' '' (str_int (node_size (node r))) @ '' ''
             @ format_ls_time (modified (node r)) @ '' '' @ nm)"

text \<open>The line \<^verbatim>\<open>"total {}".format(sum(max(1, node.size // 1024) for node in nodes))\<close>.\<close>

definition total_line :: "ref list \<Rightarrow> string" where
  "total_line nodes =
     ''total '' @ str_int (sum_list (map (\<lambda>n. max 1 (node_size (node n) div 1024)) nodes))"

definition format_ls :: "filesystem \<Rightarrow> string \<Rightarrow> string \<Rightarrow> bool \<Rightarrow> bool \<Rightarrow> fs_error + string" where
  "format_ls fs path cwd detailed include_hidden =
     (case resolve fs path cwd of
        Inl e \<Rightarrow> Inl e
      | Inr target \<Rightarrow>
          if is_dir (node target) then
            (case list_directory fs path cwd include_hidden of
               Inl e \<Rightarrow> Inl e
             | Inr nodes \<Rightarrow>
                 Inr (join [CHR 0x0A]
                   ((if detailed then [total_line nodes] else [])
                    @ (if include_hidden
                       then [describe_special target detailed ''.'',
                             describe_special
                               (case parent target of Some p \<Rightarrow> p | None \<Rightarrow> target)
                               detailed ''..'']
                       else [])
                    @ map (\<lambda>n. describe_node n detailed) nodes)))
          else Inr (describe_node target detailed))"

definition read_file :: "filesystem \<Rightarrow> string \<Rightarrow> string \<Rightarrow> fs_error + string" where
  "read_file fs path cwd =
     (case resolve fs path cwd of
        Inl e \<Rightarrow> Inl e
      | Inr r \<Rightarrow>
          if is_dir (node r) then Inl (FilesystemError (get_path r @ '' is a directory''))
          else Inr (content (node r)))"

definition ftp_list_line :: "ref \<Rightarrow> string" where
  "ftp_list_line r =
     to_unix_mode (if is_dir (node r) then ''d'' else ''-'') (mode (node r))
       @ '' 1 '' @ ljust 8 CHR '' '' (owner (node r)) @ '' '' @ ljust 8 CHR '' '' (grp (node r))
       @ '' '' @ rjust 8 CHR '' '' (str_int (node_size (node r))) @ '' ''
       @ format_ls_time (modified (node r)) @ '' '' @ name (node r)"

definition format_ftp_list :: "filesystem \<Rightarrow> string \<Rightarrow> string \<Rightarrow> fs_error + string list" where
  "format_ftp_list fs path cwd =
     (case resolve fs path cwd of
        Inl e \<Rightarrow> Inl e
      | Inr target \<Rightarrow>
          if is_dir (node target) then
            (case list_directory fs path cwd False of
               Inl e \<Rightarrow> Inl e
             | Inr nodes \<Rightarrow> Inr (map ftp_list_line nodes))
          else Inr (map ftp_list_line [target]))"

section \<open>Users and the shell command set of SSH and Telnet\<close>

text \<open>
  A user record of a service configuration.  A key that may be absent is an \<open>option\<close>;
  \<^verbatim>\<open>record.get("passwords", [])\<close> reads an absent list as empty.
\<close>

record user_record =
  passwords :: "string list"
  home :: "string option"
  motd :: "string list option"
  user_prompt :: "string option"
  welcome_msg :: "string option"

type_synonym users = "(string \<times> user_record) list"

text \<open>\<^verbatim>\<open>username in users and password in users[username].get("passwords", [])\<close>.\<close>

definition check_credentials :: "users \<Rightarrow> string \<Rightarrow> string \<Rightarrow> bool" where
  "check_credentials us username password =
     (case map_of us username of
        None \<Rightarrow> False
      | Some u \<Rightarrow> password \<in> set (passwords u))"

text \<open>\<^verbatim>\<open>SshService.user_home\<close>: \<^verbatim>\<open>users.get(username, {}).get("home", "/")\<close>.\<close>

definition user_home :: "users \<Rightarrow> string \<Rightarrow> string" where
  "user_home us username =
     (case map_of us username of
        None \<Rightarrow> ''/''
      | Some u \<Rightarrow> (case home u of None \<Rightarrow> ''/'' | Some h \<Rightarrow> h))"

text \<open>
  The \<^verbatim>\<open>try\<close> block of \<^verbatim>\<open>SshService.execute_filesystem_command\<close>: \<open>Inl\<close> is a raised
  exception, \<open>Inr\<close> the returned pair; falling out of the block returns \<^verbatim>\<open>(None, cwd)\<close>.
\<close>

definition ssh_try_block ::
  "filesystem \<Rightarrow> string \<Rightarrow> string list \<Rightarrow> string \<Rightarrow> string \<Rightarrow> string
     \<Rightarrow> fs_error + (string option \<times> string)" where
  "ssh_try_block fs cmd args cwd hm username =
     (if cmd = ''pwd'' then Inr (Some cwd, cwd)
      else if cmd = ''whoami'' then Inr (Some username, cwd)
      else if cmd = ''cd'' then
        (let target = (if args \<noteq> [] then hd args else hm);
             new_cwd = normalize target cwd
         in case resolve fs new_cwd ''/'' of
              Inl e \<Rightarrow> Inl e
            | Inr nd \<Rightarrow>
                if \<not> is_dir (node nd)
                then Inr (Some (''bash: cd: '' @ target @ '': Not a directory''), cwd)
                else Inr (Some [], new_cwd))
      else if cmd = ''ls'' then
        (let detailed = list_ex (\<lambda>flag. flag \<in> set [''-l'', ''-la'', ''-al'']) args;
             include_hidden = list_ex (\<lambda>flag. flag \<in> set [''-a'', ''-la'', ''-al'']) args;
             target = (if args \<noteq> [] \<and> \<not> startswith (last args) ''-'' then last args else ''.'')
         in case format_ls fs target cwd detailed include_hidden of
              Inl e \<Rightarrow> Inl e
            | Inr listing \<Rightarrow> Inr (Some listing, cwd))
      else if cmd = ''cat'' \<and> args \<noteq> [] then
        (case read_file fs (hd args) cwd of
           Inl e \<Rightarrow> Inl e
         | Inr text \<Rightarrow> Inr (Some text, cwd))
      else Inr (None, cwd))"

text \<open>
  The handlers are tried in the order they are written: \<^verbatim>\<open>except FilesystemError as exc\<close>
  first, then \<^verbatim>\<open>except NodeNotFound\<close>.
\<close>

definition ssh_execute_filesystem_command ::
  "filesystem \<Rightarrow> string \<Rightarrow> string \<Rightarrow> string \<Rightarrow> string \<Rightarrow> string option \<times> string" where
  "ssh_execute_filesystem_command fs command cwd hm username =
     (case split_ws command of
        [] \<Rightarrow> (Some [], cwd)
      | cmd # args \<Rightarrow>
          (case ssh_try_block fs cmd args cwd hm username of
             Inr result \<Rightarrow> result
           | Inl exc \<Rightarrow>
               if isinstance_FilesystemError exc
               then (Some (''bash: '' @ cmd @ '': '' @ exc_str exc), cwd)
               else (Some (''bash: '' @ cmd @ '': No such file or directory''), cwd)))"

text \<open>The same for \<^verbatim>\<open>TelnetService.execute_filesystem_command\<close>, whose messages have no
  \<^verbatim>\<open>bash: \<close> prefix.\<close>

definition telnet_try_block ::
  "filesystem \<Rightarrow> string \<Rightarrow> string list \<Rightarrow> string \<Rightarrow> string \<Rightarrow> string
     \<Rightarrow> fs_error + (string option \<times> string)" where
  "telnet_try_block fs cmd args cwd hm username =
     (if cmd = ''pwd'' then Inr (Some cwd, cwd)
      else if cmd = ''whoami'' then Inr (Some username, cwd)
      else if cmd = ''cd'' then
        (let target = (if args \<noteq> [] then hd args else hm);
             new_cwd = normalize target cwd
         in case resolve fs new_cwd ''/'' of
              Inl e \<Rightarrow> Inl e
            | Inr nd \<Rightarrow>
                if \<not> is_dir (node nd)
                then Inr (Some (''cd: '' @ target @ '': Not a directory''), cwd)
                else Inr (Some [], new_cwd))
      else if cmd = ''ls'' then
        (let detailed = list_ex (\<lambda>flag. flag \<in> set [''-l'', ''-la'', ''-al'']) args;
             include_hidden = list_ex (\<lambda>flag. flag \<in> set [''-a'', ''-la'', ''-al'']) args;
             target = (if args \<noteq> [] \<and> \<not> startswith (last args) ''-'' then last args else ''.'')
         in case format_ls fs target cwd detailed include_hidden of
              Inl e \<Rightarrow> Inl e
            | Inr listing \<Rightarrow> Inr (Some listing, cwd))
      else if cmd = ''cat'' \<and> args \<noteq> [] then
        (case read_file fs (hd args) cwd of
           Inl e \<Rightarrow> Inl e
         | Inr text \<Rightarrow> Inr (Some text, cwd))
      else Inr (None, cwd))"

definition telnet_execute_filesystem_command ::
  "filesystem \<Rightarrow> string \<Rightarrow> string \<Rightarrow> string \<Rightarrow> string \<Rightarrow> string option \<times> string" where
  "telnet_execute_filesystem_command fs command cwd hm username =
     (case split_ws command of
        [] \<Rightarrow> (Some [], cwd)
      | cmd # args \<Rightarrow>
          (case telnet_try_block fs cmd args cwd hm username of
             Inr result \<Rightarrow> result
           | Inl exc \<Rightarrow>
               if isinstance_FilesystemError exc
               then (Some (cmd @ '': '' @ exc_str exc), cwd)
               else (Some (cmd @ '': No such file or directory''), cwd)))"

section \<open>Home directories\<close>

text \<open>\<^verbatim>\<open>resolve_home\<close> is written out three times, once per service.\<close>

definition ssh_resolve_home :: "filesystem option \<Rightarrow> string \<Rightarrow> string" where
  "ssh_resolve_home filesystem desired =
     (case filesystem of
        None \<Rightarrow> desired
      | Some fs \<Rightarrow>
          (let resolved = normalize desired ''/'' in
           case resolve fs resolved ''/'' of
             Inr nd \<Rightarrow> if is_dir (node nd) then resolved else ''/''
           | Inl exc \<Rightarrow> ''/''))"

definition telnet_resolve_home :: "filesystem option \<Rightarrow> string \<Rightarrow> string" where
  "telnet_resolve_home filesystem desired =
     (case filesystem of
        None \<Rightarrow> desired
      | Some fs \<Rightarrow>
          (let resolved = normalize desired ''/'' in
           case resolve fs resolved ''/'' of
             Inr nd \<Rightarrow> if is_dir (node nd) then resolved else ''/''
           | Inl exc \<Rightarrow> ''/''))"

definition ftp_resolve_home :: "filesystem option \<Rightarrow> string \<Rightarrow> string" where
  "ftp_resolve_home filesystem desired =
     (case filesystem of
        None \<Rightarrow> desired
      | Some fs \<Rightarrow>
          (let resolved = normalize desired ''/'' in
           case resolve fs resolved ''/'' of
             Inr nd \<Rightarrow> if is_dir (node nd) then resolved else ''/''
           | Inl exc \<Rightarrow> ''/''))"

text \<open>\<^verbatim>\<open>HoneySSHSession.connection_made\<close>:
  \<^verbatim>\<open>self.cwd = self.service.resolve_home(self.service.user_home(self.username))\<close>.\<close>

definition ssh_initial_cwd :: "users \<Rightarrow> filesystem option \<Rightarrow> string \<Rightarrow> string" where
  "ssh_initial_cwd us filesystem username = ssh_resolve_home filesystem (user_home us username)"

text \<open>Telnet, after a successful login of \<open>username\<close> (present in \<open>users\<close>):
  \<^verbatim>\<open>home = self.resolve_home(users[username].get("home", "/"))\<close>, then \<^verbatim>\<open>cwd = home\<close>.\<close>

definition telnet_initial_cwd :: "user_record \<Rightarrow> filesystem option \<Rightarrow> string" where
  "telnet_initial_cwd u filesystem =
     telnet_resolve_home filesystem (case home u of None \<Rightarrow> ''/'' | Some h \<Rightarrow> h)"

text \<open>
  What a home path should become, in words: the normalised path when it resolves to an
  existing directory, and \<open>/\<close> when it is missing, is a file, or cannot be resolved.
\<close>

definition resolves_to_directory :: "filesystem \<Rightarrow> string \<Rightarrow> bool" where
  "resolves_to_directory fs path =
     (case resolve fs path ''/'' of Inl e \<Rightarrow> False | Inr nd \<Rightarrow> is_dir (node nd))"

definition home_or_root :: "filesystem \<Rightarrow> string \<Rightarrow> string" where
  "home_or_root fs desired =
     (if resolves_to_directory fs desired then normalize desired ''/'' else ''/'')"

text \<open>The children that a listing shows: names starting with a dot only when hidden
  entries are included.\<close>

definition listed_children :: "bool \<Rightarrow> node \<Rightarrow> node list" where
  "listed_children include_hidden d =
     filter (\<lambda>c. include_hidden \<or> \<not> startswith (name c) ''.'') (children d)"

text \<open>Example data: an epoch timestamp and small trees.\<close>

definition dt0 :: datetime where
  "dt0 = \<lparr>dt_month = 4, dt_day = 10, dt_hour = 0, dt_minute = 0\<rparr>"

definition empty_fs :: filesystem where
  "empty_fs = FakeFilesystem (Directory [] ''0755'' ''root'' ''root'' dt0 [])"

definition sample_fs :: filesystem where
  "sample_fs = FakeFilesystem (Directory [] ''0755'' ''root'' ''root'' dt0
     [Directory ''root'' ''0700'' ''root'' ''root'' dt0
        [File ''readme.md'' ''0644'' ''root'' ''root'' dt0 ''hi'' None,
         File ''.bash_history'' ''0600'' ''root'' ''root'' dt0 ''ls'' None],
      File ''motd'' ''0644'' ''root'' ''root'' dt0 ''welcome'' (Some 4096)])"

definition hidden_fs :: filesystem where
  "hidden_fs = FakeFilesystem (Directory [] ''0755'' ''root'' ''root'' dt0
     [File ''.profile'' ''0644'' ''root'' ''root'' dt0 ''umask 022'' None])"

section \<open>The event log\<close>

text \<open>
  The values that reach \<^verbatim>\<open>json.dumps\<close>: \<^verbatim>\<open>None\<close>, booleans, integers, strings, lists and
  dictionaries with string keys.
\<close>

datatype json =
    JNull
  | JBool bool
  | JInt int
  | JStr string
  | JList "json list"
  | JObj "(string \<times> json) list"

definition hex_digit :: "nat \<Rightarrow> char" where
  "hex_digit d = ''0123456789abcdef'' ! d"

text \<open>
  The escapes of \<^verbatim>\<open>json.dumps(..., ensure_ascii=False)\<close>: the quote, the backslash and
  the control characters below code point 32 are escaped, every other character is copied.
\<close>

definition json_escape_char :: "char \<Rightarrow> string" where
  "json_escape_char c = (let n = (of_char c :: nat) in
     if c = CHR 0x22 then [CHR 0x5C, CHR 0x22]
     else if c = CHR 0x5C then [CHR 0x5C, CHR 0x5C]
     else if n = 10 then [CHR 0x5C, CHR ''n'']
     else if n = 13 then [CHR 0x5C, CHR ''r'']
     else if n = 9 then [CHR 0x5C, CHR ''t'']
     else if n = 8 then [CHR 0x5C, CHR ''b'']
     else if n = 12 then [CHR 0x5C, CHR ''f'']
     else if n < 32 then [CHR 0x5C, CHR ''u'', CHR ''0'', CHR ''0'', hex_digit (n div 16), hex_digit (n mod 16)]
     else [c])"

definition json_quote :: "string \<Rightarrow> string" where
  "json_quote s = [CHR 0x22] @ concat (map json_escape_char s) @ [CHR 0x22]"

fun json_dumps :: "json \<Rightarrow> string" where
  "json_dumps JNull = ''null''"
| "json_dumps (JBool b) = (if b then ''true'' else ''false'')"
| "json_dumps (JInt i) = str_int i"
| "json_dumps (JStr s) = json_quote s"
| "json_dumps (JList xs) = ''['' @ join '', '' (map json_dumps xs) @ '']''"
| "json_dumps (JObj kvs) =
     ''{'' @ join '', '' (map (\<lambda>kv. json_quote (fst kv) @ '': '' @ json_dumps (snd kv)) kvs) @ ''}''"

text \<open>An event as a service hands it to \<^verbatim>\<open>log_event\<close>: its name and the keyword
  arguments \<^verbatim>\<open>**details\<close>.\<close>

type_synonym event = "string \<times> (string \<times> json) list"

text \<open>The dictionary \<^verbatim>\<open>payload\<close> of \<^verbatim>\<open>BaseService.log_event\<close>; \<open>ts\<close> is the value of
  \<^verbatim>\<open>timestamp()\<close> at the call.\<close>

definition log_payload :: "string \<Rightarrow> string \<Rightarrow> event \<Rightarrow> (string \<times> json) list" where
  "log_payload service_name ts ev =
     dict_update [(''ts'', JStr ts), (''service'', JStr service_name), (''event'', JStr (fst ev))]
       (snd ev)"

text \<open>The text that \<^verbatim>\<open>log_event\<close> appends to the log file.\<close>

definition log_event :: "string \<Rightarrow> string \<Rightarrow> event \<Rightarrow> string" where
  "log_event service_name ts ev = json_dumps (JObj (log_payload service_name ts ev)) @ [CHR 0x0A]"

text \<open>
  The shape of a written record, as text: a member of a JSON object is its key between
  double quotes, a colon, a space and the rendered value.
\<close>

definition quoted :: "string \<Rightarrow> string" where
  "quoted s = [CHR 0x22] @ s @ [CHR 0x22]"

definition json_member :: "string \<Rightarrow> string \<Rightarrow> string" where
  "json_member k rendered = quoted k @ '': '' @ rendered"

text \<open>
  The line of a login attempt, in words: an object with the members \<open>ts\<close>, \<open>service\<close>,
  \<open>event\<close>, \<open>client\<close>, \<open>protocol\<close>, \<open>username\<close>, \<open>password\<close> and \<open>success\<close>, in this
  order, and a line feed.  The user name comes rendered, since it may be \<open>null\<close>.
\<close>

definition login_attempt_line ::
  "string \<Rightarrow> string \<Rightarrow> string \<Rightarrow> string \<Rightarrow> string \<Rightarrow> bool \<Rightarrow> string" where
  "login_attempt_line service_name ts peer rendered_username password success =
     ''{'' @ join '', ''
        [json_member ''ts'' (json_quote ts),
         json_member ''service'' (json_quote service_name),
         json_member ''event'' (json_quote ''login_attempt''),
         json_member ''client'' (json_quote peer),
         json_member ''protocol'' (json_quote service_name),
         json_member ''username'' rendered_username,
         json_member ''password'' (json_quote password),
         json_member ''success'' (if success then ''true'' else ''false'')]
       @ ''}'' @ [CHR 0x0A]"

text \<open>\<^verbatim>\<open>username\<close> may be \<^verbatim>\<open>None\<close> in the FTP service.\<close>

definition json_opt_str :: "string option \<Rightarrow> json" where
  "json_opt_str s = (case s of None \<Rightarrow> JNull | Some t \<Rightarrow> JStr t)"

section \<open>Login attempts of SSH and Telnet\<close>

text \<open>\<^verbatim>\<open>HoneySSHServer.validate_password\<close>: the result and the event it logs; \<open>peer\<close> is
  \<^verbatim>\<open>str(peer)\<close>.\<close>

definition ssh_validate_password :: "users \<Rightarrow> string \<Rightarrow> string \<Rightarrow> string \<Rightarrow> bool \<times> event" where
  "ssh_validate_password us peer username password =
     (let success = check_credentials us username password in
      (success,
       (''login_attempt'',
        [(''client'', JStr peer), (''protocol'', JStr ''ssh''), (''username'', JStr username),
         (''password'', JStr password), (''success'', JBool success)])))"

text \<open>One round of the login loop of \<^verbatim>\<open>TelnetService.handle_client\<close>, after both prompts
  have been answered.\<close>

definition telnet_login_attempt :: "users \<Rightarrow> string \<Rightarrow> string \<Rightarrow> string \<Rightarrow> bool \<times> event" where
  "telnet_login_attempt us peer username password =
     (let success = check_credentials us username password in
      (success,
       (''login_attempt'',
        [(''client'', JStr peer), (''protocol'', JStr ''telnet''), (''username'', JStr username),
         (''password'', JStr password), (''success'', JBool success)])))"

section \<open>The MySQL service\<close>

text \<open>The keys of \<^verbatim>\<open>mysql_config.json\<close> that \<^verbatim>\<open>MysqlService.handle_client\<close> reads.\<close>

record mysql_config =
  handshake_banner :: "string option"
  greeting_lines :: "string list option"
  mysql_prompt :: "string option"
  mysql_command_responses :: "(string \<times> string) list"
  default_response :: "string option"
  farewell :: "string option"

definition the_handshake :: "mysql_config \<Rightarrow> string" where
  "the_handshake cfg =
     (case handshake_banner cfg of None \<Rightarrow> ''5.7.41-0ubuntu0.20.04.1-log'' | Some h \<Rightarrow> h)"

definition the_greeting_lines :: "mysql_config \<Rightarrow> string list" where
  "the_greeting_lines cfg =
     (case greeting_lines cfg of
        None \<Rightarrow> [''Welcome to the MySQL monitor.  Commands end with ; or '' @ [CHR 0x5C] @ ''g.'',
                  ''Your MySQL connection id is 54'',
                  ''Server version: 5.7.41-0ubuntu0.20.04.1-log (Ubuntu)'']
      | Some ls \<Rightarrow> ls)"

definition the_prompt :: "mysql_config \<Rightarrow> string" where
  "the_prompt cfg = (case mysql_prompt cfg of None \<Rightarrow> ''mysql> '' | Some p \<Rightarrow> p)"

definition the_default_response :: "mysql_config \<Rightarrow> string" where
  "the_default_response cfg =
     (case default_response cfg of
        None \<Rightarrow> ''ERROR 1064 (42000): You have an error in your SQL syntax; ''
                 @ ''check the manual that corresponds to your MySQL server version for the right syntax to use near ''
                 @ [CHR 0x27, CHR 0x27] @ '' at line 1''
      | Some d \<Rightarrow> d)"

definition the_farewell :: "mysql_config \<Rightarrow> string" where
  "the_farewell cfg = (case farewell cfg of None \<Rightarrow> ''Bye'' | Some f \<Rightarrow> f)"

text \<open>The comprehension \<^verbatim>\<open>{key.lower(): value for key, value in ...items()}\<close>: a later key
  with the same lower-case form overwrites an earlier one.\<close>

definition command_responses :: "mysql_config \<Rightarrow> string \<rightharpoonup> string" where
  "command_responses cfg =
     foldl (\<lambda>m kv. m(lower (fst kv) \<mapsto> snd kv)) Map.empty (mysql_command_responses cfg)"

text \<open>What a session produces: the texts written to the client, in order, and the
  events logged.  Every session ends with the connection closed.\<close>

type_synonym transcript = "string list \<times> event list"

definition emit :: "string list \<Rightarrow> event list \<Rightarrow> transcript \<Rightarrow> transcript" where
  "emit ws es t = (ws @ fst t, es @ snd t)"

definition mysql_command_event :: "string \<Rightarrow> string \<Rightarrow> string \<Rightarrow> event" where
  "mysql_command_event peer command response =
     (''command'', [(''client'', JStr peer), (''command'', JStr command), (''response'', JStr response)])"

text \<open>
  The \<^verbatim>\<open>while True\<close> loop.  The input is the list of the decoded texts of the lines that
  \<^verbatim>\<open>readline()\<close> returns; at the end of the list the client has closed the connection
  and \<^verbatim>\<open>readline()\<close> returns no data.
\<close>

fun mysql_loop :: "mysql_config \<Rightarrow> string \<Rightarrow> string list \<Rightarrow> transcript" where
  "mysql_loop cfg peer [] = ([the_prompt cfg], [])"
| "mysql_loop cfg peer (data # rest) =
     (let command = strip data in
      if command = [] then emit [the_prompt cfg] [] (mysql_loop cfg peer rest)
      else
        (let lower_command = lower command in
         case command_responses cfg lower_command of
           None \<Rightarrow>
             if lower_command \<in> {''quit'', ''exit''}
             then ([the_prompt cfg, the_farewell cfg @ [CHR 0x0A]],
                   [mysql_command_event peer command ''BYE''])
             else emit [the_prompt cfg, the_default_response cfg @ [CHR 0x0A]]
                    [mysql_command_event peer command (take 160 (the_default_response cfg))]
                    (mysql_loop cfg peer rest)
         | Some response \<Rightarrow>
             emit [the_prompt cfg, response @ [CHR 0x0A]]
               [mysql_command_event peer command (take 160 response)]
               (mysql_loop cfg peer rest)))"

definition mysql_handle_client :: "mysql_config \<Rightarrow> string \<Rightarrow> string list \<Rightarrow> transcript" where
  "mysql_handle_client cfg peer input =
     emit ((the_handshake cfg @ [CHR 0x0A]) # map (\<lambda>l. l @ [CHR 0x0A]) (the_greeting_lines cfg))
       [(''handshake'', [(''client'', JStr peer), (''handshake'', JStr (the_handshake cfg))])]
       (mysql_loop cfg peer input)"

text \<open>Example configurations: the defaults, and one that answers \<open>quit\<close> itself.\<close>

definition mysql_defaults :: mysql_config where
  "mysql_defaults = \<lparr>handshake_banner = None, greeting_lines = None, mysql_prompt = None,
     mysql_command_responses = [(''show databases;'', ''Database'')], default_response = None,
     farewell = None\<rparr>"

definition mysql_sticky :: mysql_config where
  "mysql_sticky = mysql_defaults\<lparr>mysql_command_responses := [(''QUIT'', ''Query OK'')]\<rparr>"

section \<open>The HTTP service\<close>

text \<open>A route of \<^verbatim>\<open>http_config.json\<close>; an absent key is \<open>None\<close> (the empty dictionary for
  \<^verbatim>\<open>response_headers\<close>).\<close>

record http_route =
  route_method :: "string option"
  route_path :: "string option"
  route_status :: "int option"
  route_body :: "string option"
  route_body_file :: "string option"
  response_headers :: "(string \<times> string) list"

text \<open>The configuration; \<open>not_found = None\<close> when the key is absent or holds an empty
  object, which \<^verbatim>\<open>if not not_found_route\<close> treats alike.\<close>

record http_config =
  server_header :: "string option"
  default_status :: "int option"
  default_headers :: "(string \<times> string) list"
  routes :: "http_route list"
  not_found :: "http_route option"

definition the_server_header :: "http_config \<Rightarrow> string" where
  "the_server_header cfg =
     (case server_header cfg of None \<Rightarrow> ''Apache/2.4.52 (Ubuntu)'' | Some h \<Rightarrow> h)"

definition the_default_status :: "http_config \<Rightarrow> int" where
  "the_default_status cfg = (case default_status cfg of None \<Rightarrow> 404 | Some s \<Rightarrow> s)"

text \<open>\<^verbatim>\<open>self.STATUS_TEXT.get(status, 'Unknown')\<close>.\<close>

definition STATUS_TEXT :: "int \<Rightarrow> string" where
  "STATUS_TEXT status =
     (if status = 200 then ''OK'' else if status = 201 then ''Created''
      else if status = 202 then ''Accepted'' else if status = 204 then ''No Content''
      else if status = 301 then ''Moved Permanently'' else if status = 302 then ''Found''
      else if status = 400 then ''Bad Request'' else if status = 401 then ''Unauthorized''
      else if status = 403 then ''Forbidden'' else if status = 404 then ''Not Found''
      else if status = 405 then ''Method Not Allowed''
      else if status = 500 then ''Internal Server Error''
      else if status = 502 then ''Bad Gateway'' else if status = 503 then ''Service Unavailable''
      else ''Unknown'')"

text \<open>\<^verbatim>\<open>HttpService.match_route\<close>: the first route whose method (default \<^verbatim>\<open>GET\<close>) and path
  agree with the request.\<close>

fun match_route :: "http_route list \<Rightarrow> string \<Rightarrow> string \<Rightarrow> http_route option" where
  "match_route [] method path = None"
| "match_route (route # rest) method path =
     (if upper (case route_method route of None \<Rightarrow> ''GET'' | Some m \<Rightarrow> m) \<noteq> upper method
      then match_route rest method path
      else if route_path route = Some path then Some route
      else match_route rest method path)"

text \<open>\<^verbatim>\<open>HttpService.resolve_body\<close>; \<open>files\<close> gives the text of the files that can be
  read, by the path named in the route, and opening any other file raises.\<close>

datatype http_error = FileError string

definition resolve_body :: "(string \<rightharpoonup> string) \<Rightarrow> http_route \<Rightarrow> http_error + (string \<times> nat)" where
  "resolve_body files route =
     (case route_body route of
        Some b \<Rightarrow> Inr (b, utf8_len b)
      | None \<Rightarrow>
          (case route_body_file route of
             Some f \<Rightarrow>
               (case files f of
                  None \<Rightarrow> Inl (FileError f)
                | Some text \<Rightarrow> Inr (text, utf8_len text))
           | None \<Rightarrow> Inr ([], 0)))"

text \<open>The first half of \<^verbatim>\<open>build_response\<close>: status, body, length and the headers to start
  from.\<close>

definition select_response ::
  "http_config \<Rightarrow> (string \<rightharpoonup> string) \<Rightarrow> http_route option
     \<Rightarrow> http_error + (int \<times> string \<times> nat \<times> (string \<times> string) list)" where
  "select_response cfg files route =
     (case route of
        Some r \<Rightarrow>
          (case resolve_body files r of
             Inl e \<Rightarrow> Inl e
           | Inr (body_content, len) \<Rightarrow>
               Inr (case route_status r of None \<Rightarrow> the_default_status cfg | Some s \<Rightarrow> s,
                    body_content, len,
                    dict_update (default_headers cfg) (response_headers r)))
      | None \<Rightarrow>
          (case not_found cfg of
             None \<Rightarrow>
               (let status = the_default_status cfg;
                    body_content = str_int status @ '' '' @ STATUS_TEXT status @ [CHR 0x0A]
                in Inr (status, body_content, utf8_len body_content, default_headers cfg))
           | Some nf \<Rightarrow>
               (case resolve_body files nf of
                  Inl e \<Rightarrow> Inl e
                | Inr (body_content, len) \<Rightarrow>
                    Inr (the_default_status cfg, body_content, len,
                         dict_update (default_headers cfg) (response_headers nf)))))"

text \<open>The header updates of \<^verbatim>\<open>build_response\<close>; \<open>date\<close> is the value of
  \<^verbatim>\<open>http_date()\<close> at the call.\<close>

definition final_headers ::
  "http_config \<Rightarrow> string \<Rightarrow> nat \<Rightarrow> (string \<times> string) list \<Rightarrow> (string \<times> string) list" where
  "final_headers cfg date len hs =
     dict_set ''Content-Length'' (str_nat len)
       (dict_set ''Date'' date
          (dict_set ''Server'' (the_server_header cfg)
             (setdefault ''Connection'' ''close''
                (setdefault ''Content-Type'' ''text/html; charset=utf-8'' hs))))"

definition header_blob :: "(string \<times> string) list \<Rightarrow> string" where
  "header_blob hs = concat (map (\<lambda>kv. fst kv @ '': '' @ snd kv @ [CHR 0x0D, CHR 0x0A]) hs)"

text \<open>The parts of a response before they are concatenated and encoded.\<close>

record http_response =
  status_line :: string
  headers :: "(string \<times> string) list"
  body :: string

definition response_parts ::
  "http_config \<Rightarrow> (string \<rightharpoonup> string) \<Rightarrow> string \<Rightarrow> http_route option \<Rightarrow> string
     \<Rightarrow> http_error + http_response" where
  "response_parts cfg files date route version =
     (case select_response cfg files route of
        Inl e \<Rightarrow> Inl e
      | Inr (status, body_content, len, hs) \<Rightarrow>
          Inr \<lparr>status_line = version @ '' '' @ str_int status @ '' '' @ STATUS_TEXT status
                   @ [CHR 0x0D, CHR 0x0A],
               headers = final_headers cfg date len hs,
               body = body_content\<rparr>)"

text \<open>\<^verbatim>\<open>HttpService.build_response\<close>: the text whose UTF-8 encoding is sent.\<close>

definition build_response ::
  "http_config \<Rightarrow> (string \<rightharpoonup> string) \<Rightarrow> string \<Rightarrow> http_route option \<Rightarrow> string \<Rightarrow> string
     \<Rightarrow> string \<Rightarrow> http_error + string" where
  "build_response cfg files date route method path version =
     (case response_parts cfg files date route version of
        Inl e \<Rightarrow> Inl e
      | Inr r \<Rightarrow>
          Inr (status_line r @ header_blob (headers r) @ [CHR 0x0D, CHR 0x0A] @ body r))"

text \<open>Example configuration: one route, no \<open>not_found\<close>, a header override.\<close>

definition http_sample :: http_config where
  "http_sample = \<lparr>server_header = Some ''nginx'', default_status = None,
     default_headers = [(''X-Powered-By'', ''PHP/7.4''), (''Server'', ''hidden'')],
     routes = [\<lparr>route_method = None, route_path = Some ''/'', route_status = Some 200,
                route_body = Some ''hello'', route_body_file = None, response_headers = []\<rparr>],
     not_found = None\<rparr>"

section \<open>The FTP service: configuration and session state\<close>

text \<open>A value of \<^verbatim>\<open>command_responses\<close> is a string or a list of strings.\<close>

datatype ftp_response = Single string | Entries "string list"

record ftp_config =
  ftp_users :: users
  ftp_banner :: "string option"
  default_home :: "string option"
  syst_response :: "string option"
  ftp_features :: "string list option"
  ftp_listing :: "string list option"
  ftp_command_responses :: "(string \<times> ftp_response) list"

definition the_default_home :: "ftp_config \<Rightarrow> string" where
  "the_default_home cfg = (case default_home cfg of None \<Rightarrow> ''/'' | Some h \<Rightarrow> h)"

text \<open>
  The passive listener: \<^verbatim>\<open>passive_server\<close> and \<^verbatim>\<open>passive_future\<close> are set and cleared
  together, so one \<open>option\<close> stands for both, holding the state of the future: pending,
  resolved by a data client that connected, or cancelled by a wait that timed out.
\<close>

datatype future_state = Pending | Resolved | Cancelled

text \<open>The local variables of \<^verbatim>\<open>FtpService.handle_client\<close> that live across commands.\<close>

record ftp_state =
  st_username :: "string option"
  st_authed :: bool
  st_cwd :: string
  st_home :: string
  st_active_target :: "(string \<times> int) option"
  st_passive :: "future_state option"

text \<open>\<^verbatim>\<open>_DataChannel\<close>: the mode, and for the active mode the target.\<close>

datatype channel = Active "string \<times> int" | Passive

text \<open>
  What the network does while one command is handled: the address of a passive socket
  if one is bound (\<open>None\<close>: binding raises), the local address of the control connection,
  whether a data client connects to the passive listener before a wait of up to ten
  seconds ends, how a transfer on the data connection goes (delivered; the connection
  cannot be made or used; an error after an outgoing connection was made), and the text
  of an exception raised by the runtime.
\<close>

datatype data_outcome = Delivered | Refused | Broken

record ftp_env =
  pasv_sockname :: "(string \<times> nat) option"
  ctrl_sockname :: string
  data_client :: bool
  transfer :: data_outcome
  exc_text :: string

text \<open>What handling one command produces: the texts written on the control connection,
  the events logged, the lines written on the data connection, and the state for the
  next command (\<open>None\<close>: the loop is left and the connection closed).\<close>

record ftp_result =
  replies :: "string list"
  logged :: "event list"
  data_lines :: "string list"
  next_state :: "ftp_state option"

definition crlf :: string where
  "crlf = [CHR 0x0D, CHR 0x0A]"

definition reply :: "string list \<Rightarrow> event list \<Rightarrow> ftp_state \<Rightarrow> ftp_result" where
  "reply ws es st = \<lparr>replies = ws, logged = es, data_lines = [], next_state = Some st\<rparr>"

text \<open>An exception that reaches \<^verbatim>\<open>except Exception\<close>: it is logged and the connection is
  closed.\<close>

definition crash :: "string list \<Rightarrow> string \<Rightarrow> ftp_env \<Rightarrow> ftp_result" where
  "crash ws peer env =
     \<lparr>replies = ws,
      logged = [(''error'', [(''error'', JStr (exc_text env)), (''client'', JStr peer)])],
      data_lines = [], next_state = None\<rparr>"

definition ftp_command_event :: "string \<Rightarrow> ftp_state \<Rightarrow> string \<Rightarrow> event" where
  "ftp_command_event peer st command =
     (''command'', [(''client'', JStr peer), (''username'', json_opt_str (st_username st)),
                    (''command'', JStr command), (''cwd'', JStr (st_cwd st))])"

definition close_passive :: "ftp_state \<Rightarrow> ftp_state" where
  "close_passive st = st\<lparr>st_passive := None\<rparr>"

definition initial_state :: "ftp_config \<Rightarrow> filesystem option \<Rightarrow> ftp_state" where
  "initial_state cfg filesystem =
     \<lparr>st_username = None, st_authed = False,
      st_cwd = ftp_resolve_home filesystem (the_default_home cfg),
      st_home = ftp_resolve_home filesystem (the_default_home cfg),
      st_active_target = None, st_passive = None\<rparr>"

text \<open>\<^verbatim>\<open>command, arg = decoded.split(" ", 1)\<close> when there is a space, else the whole line
  is the command.\<close>

definition parse_command :: "string \<Rightarrow> string \<times> string" where
  "parse_command decoded =
     (if CHR '' '' \<in> set decoded
      then (takeWhile (\<lambda>c. c \<noteq> CHR '' '') decoded, tl (dropWhile (\<lambda>c. c \<noteq> CHR '' '') decoded))
      else (decoded, []))"

section \<open>The FTP service: commands\<close>

definition handle_user :: "ftp_config \<Rightarrow> ftp_state \<Rightarrow> string \<Rightarrow> ftp_result" where
  "handle_user cfg st arg =
     (let prompt = (case map_of (ftp_users cfg) arg of
                      None \<Rightarrow> ''Please specify the password.''
                    | Some u \<Rightarrow> (case user_prompt u of
                                  None \<Rightarrow> ''Please specify the password.''
                                | Some p \<Rightarrow> p))
      in reply [''331 '' @ prompt @ crlf] [] (st\<lparr>st_username := Some arg\<rparr>))"

text \<open>\<^verbatim>\<open>success = username in users and password in users[username].get("passwords", [])\<close>
  where \<^verbatim>\<open>username\<close> may still be \<^verbatim>\<open>None\<close>.\<close>

definition pass_success :: "ftp_config \<Rightarrow> ftp_state \<Rightarrow> string \<Rightarrow> bool" where
  "pass_success cfg st password =
     (case st_username st of
        None \<Rightarrow> False
      | Some u \<Rightarrow> check_credentials (ftp_users cfg) u password)"

definition login_event :: "string \<Rightarrow> ftp_state \<Rightarrow> string \<Rightarrow> bool \<Rightarrow> event" where
  "login_event peer st password success =
     (''login_attempt'',
      [(''client'', JStr peer), (''protocol'', JStr ''ftp''),
       (''username'', json_opt_str (st_username st)), (''password'', JStr password),
       (''success'', JBool success)])"

text \<open>The branch \<^verbatim>\<open>if success and username\<close>: an empty user name never logs in.\<close>

definition pass_accepted :: "ftp_config \<Rightarrow> ftp_state \<Rightarrow> string \<Rightarrow> bool" where
  "pass_accepted cfg st password =
     (pass_success cfg st password \<and> st_username st \<noteq> None \<and> st_username st \<noteq> Some [])"

text \<open>\<^verbatim>\<open>users[username]\<close> for the user name given last.\<close>

definition current_user :: "ftp_config \<Rightarrow> ftp_state \<Rightarrow> user_record option" where
  "current_user cfg st =
     (case st_username st of None \<Rightarrow> None | Some u \<Rightarrow> map_of (ftp_users cfg) u)"

definition handle_pass ::
  "ftp_config \<Rightarrow> filesystem option \<Rightarrow> string \<Rightarrow> ftp_state \<Rightarrow> string \<Rightarrow> ftp_result" where
  "handle_pass cfg filesystem peer st password =
     (let success = pass_success cfg st password;
          ev = login_event peer st password success
      in case (if pass_accepted cfg st password then current_user cfg st else None) of
           Some u \<Rightarrow>
             (let hm = ftp_resolve_home filesystem
                         (case home u of None \<Rightarrow> the_default_home cfg | Some h \<Rightarrow> h)
              in reply
                   [(case welcome_msg u of None \<Rightarrow> ''230 Login successful.'' | Some w \<Rightarrow> w) @ crlf]
                   [ev]
                   (st\<lparr>st_authed := True, st_home := hm, st_cwd := hm,
                       st_active_target := None, st_passive := None\<rparr>))
         | None \<Rightarrow> reply [''530 Login incorrect.'' @ crlf] [ev] (st\<lparr>st_authed := False\<rparr>))"

text \<open>\<^verbatim>\<open>port = (int(parts[4]) << 8) + int(parts[5])\<close>, and 0 on a \<^verbatim>\<open>ValueError\<close>.\<close>

definition computed_port :: "string \<Rightarrow> string \<Rightarrow> int" where
  "computed_port p1 p2 =
     (case py_int p1 of
        None \<Rightarrow> 0
      | Some a \<Rightarrow> (case py_int p2 of None \<Rightarrow> 0 | Some b \<Rightarrow> push_bit 8 a + b))"

text \<open>\<^verbatim>\<open>all(0 <= int(part) <= 255 for part in parts)\<close>: \<open>None\<close> is the \<^verbatim>\<open>ValueError\<close> of a
  part that is not an integer, met before any part out of range.\<close>

fun all_octets :: "string list \<Rightarrow> bool option" where
  "all_octets [] = Some True"
| "all_octets (part # rest) =
     (case py_int part of
        None \<Rightarrow> None
      | Some n \<Rightarrow> if 0 \<le> n \<and> n \<le> 255 then all_octets rest else Some False)"

definition test_active_address :: "string \<Rightarrow> int \<Rightarrow> bool" where
  "test_active_address host port =
     (if port \<le> 0 \<or> port > 65535 then False
      else if length (split_on CHR ''.'' host) \<noteq> 4 then False
      else (case all_octets (split_on CHR ''.'' host) of None \<Rightarrow> False | Some b \<Rightarrow> b))"

definition syntax_error_reply :: string where
  "syntax_error_reply = ''501 Syntax error in parameters or arguments.'' @ crlf"

definition handle_port :: "string \<Rightarrow> ftp_state \<Rightarrow> string \<Rightarrow> ftp_result" where
  "handle_port peer st arg =
     (case split_on CHR '','' arg of
        [h1, h2, h3, h4, p1, p2] \<Rightarrow>
          (let host = join ''.'' [h1, h2, h3, h4];
               port = computed_port p1 p2
           in if test_active_address host port
              then reply [''200 PORT command successful.'' @ crlf]
                     [ftp_command_event peer st (''PORT '' @ arg)]
                     (close_passive (st\<lparr>st_active_target := Some (host, port)\<rparr>))
              else reply [syntax_error_reply] [] st)
      | _ \<Rightarrow> reply [syntax_error_reply] [] st)"

definition handle_pasv :: "string \<Rightarrow> ftp_env \<Rightarrow> ftp_state \<Rightarrow> ftp_result" where
  "handle_pasv peer env st =
     (case pasv_sockname env of
        None \<Rightarrow> crash [] peer env
      | Some (bound_host, bound_port) \<Rightarrow>
          (let pasv_host =
                 (if bound_host = ''0.0.0.0''
                  then (if ctrl_sockname env \<noteq> [] then ctrl_sockname env else ''127.0.0.1'')
                  else bound_host)
           in case split_on CHR ''.'' pasv_host of
                [h1, h2, h3, h4] \<Rightarrow>
                  reply [''227 Entering Passive Mode ('' @ h1 @ '','' @ h2 @ '','' @ h3 @ '','' @ h4
                           @ '','' @ str_nat (bound_port div 256) @ '',''
                           @ str_nat (bound_port mod 256) @ '').'' @ crlf]
                    [] (st\<lparr>st_passive := Some Pending\<rparr>)
              | _ \<Rightarrow> crash [] peer env))"

definition handle_cwd ::
  "filesystem option \<Rightarrow> string \<Rightarrow> ftp_state \<Rightarrow> string \<Rightarrow> ftp_result" where
  "handle_cwd filesystem peer st arg =
     (let target = (if arg \<noteq> [] then arg else st_home st) in
      case filesystem of
        None \<Rightarrow> reply [''250 Directory successfully changed.'' @ crlf] [] (st\<lparr>st_cwd := target\<rparr>)
      | Some fs \<Rightarrow>
          (let new_dir = normalize target (st_cwd st) in
           case resolve fs new_dir ''/'' of
             Inl e \<Rightarrow> reply [''550 Failed to change directory.'' @ crlf] [] st
           | Inr nd \<Rightarrow>
               if \<not> is_dir (node nd)
               then reply [''550 Failed to change directory.'' @ crlf] [] st
               else reply [''250 Directory successfully changed.'' @ crlf]
                      [ftp_command_event peer (st\<lparr>st_cwd := new_dir\<rparr>) (''CWD '' @ target)]
                      (st\<lparr>st_cwd := new_dir\<rparr>)))"

section \<open>The FTP service: the data channel\<close>

text \<open>
  \<^verbatim>\<open>_prepare_data_channel\<close>.  \<open>Ready\<close>: a channel is returned.  \<open>Missing\<close>: \<^verbatim>\<open>None\<close> is
  returned, after the given texts were written on the control connection.  \<open>Aborted\<close>:
  the future had been cancelled by an earlier wait, so waiting for it raises
  \<^verbatim>\<open>CancelledError\<close>, which \<^verbatim>\<open>except Exception\<close> does not catch.  A wait that times out
  cancels the future and leaves the listener in place.
\<close>

datatype prepared = Ready channel ftp_state | Missing "string list" ftp_state | Aborted

definition timed_out_reply :: string where
  "timed_out_reply = ''425 Passive data connection timed out.'' @ crlf"

definition no_channel_reply :: string where
  "no_channel_reply = ''425 Use PORT or PASV first.'' @ crlf"

definition prepare_data_channel :: "ftp_env \<Rightarrow> ftp_state \<Rightarrow> prepared" where
  "prepare_data_channel env st =
     (case st_active_target st of
        Some target \<Rightarrow> Ready (Active target) st
      | None \<Rightarrow>
          (case st_passive st of
             None \<Rightarrow> Missing [] st
           | Some Pending \<Rightarrow>
               if data_client env then Ready Passive (st\<lparr>st_passive := Some Resolved\<rparr>)
               else Missing [timed_out_reply] (st\<lparr>st_passive := Some Cancelled\<rparr>)
           | Some Resolved \<Rightarrow> Ready Passive st
           | Some Cancelled \<Rightarrow> Aborted))"

text \<open>After a transfer: \<^verbatim>\<open>if channel.mode == "active": active_target = None\<close>, else
  \<^verbatim>\<open>await close_passive()\<close>.\<close>

definition release :: "channel \<Rightarrow> ftp_state \<Rightarrow> ftp_state" where
  "release ch st = (case ch of Active t \<Rightarrow> st\<lparr>st_active_target := None\<rparr> | Passive \<Rightarrow> close_passive st)"

text \<open>\<^verbatim>\<open>_send_data\<close>: \<open>Some True\<close> and \<open>Some False\<close> are its results, \<open>None\<close> an exception
  that it lets through (only on an outgoing connection that was made).\<close>

definition send_data :: "ftp_env \<Rightarrow> channel \<Rightarrow> bool option" where
  "send_data env ch =
     (case ch of
        Active t \<Rightarrow> (case transfer env of Delivered \<Rightarrow> Some True | Refused \<Rightarrow> Some False | Broken \<Rightarrow> None)
      | Passive \<Rightarrow> (case transfer env of Delivered \<Rightarrow> Some True | Refused \<Rightarrow> Some False | Broken \<Rightarrow> Some False))"

text \<open>The part shared by \<^verbatim>\<open>LIST\<close> and \<^verbatim>\<open>RETR\<close> from \<^verbatim>\<open>150 Opening data connection.\<close> on.\<close>

definition transfer_lines ::
  "string \<Rightarrow> ftp_env \<Rightarrow> channel \<Rightarrow> ftp_state \<Rightarrow> string list \<Rightarrow> event \<Rightarrow> ftp_result" where
  "transfer_lines peer env ch st payload ev =
     (case send_data env ch of
        None \<Rightarrow> crash [''150 Opening data connection.'' @ crlf] peer env
      | Some True \<Rightarrow>
          \<lparr>replies = [''150 Opening data connection.'' @ crlf, ''226 Transfer complete.'' @ crlf],
           logged = [ev], data_lines = map (\<lambda>l. l @ crlf) payload,
           next_state = Some (release ch st)\<rparr>
      | Some False \<Rightarrow>
          reply [''150 Opening data connection.'' @ crlf, ''425 Could not establish connection.'' @ crlf]
            [] (release ch st))"

definition the_listing :: "ftp_config \<Rightarrow> string list" where
  "the_listing cfg =
     (case ftp_listing cfg of
        None \<Rightarrow> [''-rw-r--r--    1 ftp      ftp          531 Jan 01 12:00 README'',
                  ''drwxr-xr-x    2 ftp      ftp         4096 Jan 01 12:00 pub'']
      | Some ls \<Rightarrow> ls)"

definition handle_list ::
  "ftp_config \<Rightarrow> filesystem option \<Rightarrow> string \<Rightarrow> ftp_env \<Rightarrow> ftp_state \<Rightarrow> string \<Rightarrow> string
     \<Rightarrow> ftp_result" where
  "handle_list cfg filesystem peer env st command_upper arg =
     (case prepare_data_channel env st of
        Aborted \<Rightarrow> \<lparr>replies = [], logged = [], data_lines = [], next_state = None\<rparr>
      | Missing written st' \<Rightarrow> reply (written @ [no_channel_reply]) [] st'
      | Ready ch st' \<Rightarrow>
          (let target_path = (if arg \<noteq> [] then arg else ''.'') in
           case (case filesystem of
                   Some fs \<Rightarrow> format_ftp_list fs target_path (st_cwd st')
                 | None \<Rightarrow> Inr (the_listing cfg)) of
             Inl e \<Rightarrow> reply [''550 Failed to list directory.'' @ crlf] [] (release ch st')
           | Inr ls \<Rightarrow>
               if command_upper \<in> {''NLST'', ''XNLST''} \<and> list_ex (\<lambda>l. split_ws l = []) ls
               then crash [] peer env
               else transfer_lines peer env ch st'
                      (if command_upper \<in> {''NLST'', ''XNLST''} then map (\<lambda>l. last (split_ws l)) ls else ls)
                      (ftp_command_event peer st'
                         (strip (command_upper @ '' '' @ target_path)))))"

definition handle_retr ::
  "filesystem option \<Rightarrow> string \<Rightarrow> ftp_env \<Rightarrow> ftp_state \<Rightarrow> string \<Rightarrow> ftp_result" where
  "handle_retr filesystem peer env st arg =
     (case prepare_data_channel env st of
        Aborted \<Rightarrow> \<lparr>replies = [], logged = [], data_lines = [], next_state = None\<rparr>
      | Missing written st' \<Rightarrow> reply (written @ [no_channel_reply]) [] st'
      | Ready ch st' \<Rightarrow>
          (case filesystem of
             None \<Rightarrow> reply [''550 File unavailable.'' @ crlf] [] st'
           | Some fs \<Rightarrow>
               if arg = [] then reply [''501 Missing filename.'' @ crlf] [] st'
               else
                 (case read_file fs arg (st_cwd st') of
                    Inl e \<Rightarrow>
                      if isinstance_NodeNotFound e
                      then reply [''550 File not found.'' @ crlf] [] (release ch st')
                      else reply [''550 File unavailable.'' @ crlf] [] (release ch st')
                  | Inr text \<Rightarrow>
                      transfer_lines peer env ch st' (splitlines text)
                        (''command'',
                         [(''client'', JStr peer), (''username'', json_opt_str (st_username st')),
                          (''command'', JStr (''RETR '' @ arg)), (''cwd'', JStr (st_cwd st')),
                          (''size'', JInt (int (utf8_len text)))]))))"

definition handle_other :: "ftp_config \<Rightarrow> string \<Rightarrow> ftp_state \<Rightarrow> string \<Rightarrow> string \<Rightarrow> ftp_result" where
  "handle_other cfg peer st command_upper decoded =
     reply
       (case map_of (ftp_command_responses cfg) command_upper of
          None \<Rightarrow> [''502 Command not implemented.'' @ crlf]
        | Some (Single response) \<Rightarrow> [response @ crlf]
        | Some (Entries es) \<Rightarrow> map (\<lambda>entry. entry @ crlf) es)
       [ftp_command_event peer st decoded] st"

section \<open>The FTP service: the command loop\<close>

definition login_required_reply :: string where
  "login_required_reply = ''530 Please login with USER and PASS.'' @ crlf"

text \<open>The upper-case command word of a line, as the loop computes it.\<close>

definition command_of :: "string \<Rightarrow> string" where
  "command_of line = upper (fst (parse_command (rstrip_chars crlf line)))"

text \<open>One turn of the \<^verbatim>\<open>while True\<close> loop on the decoded text of a line that was read.\<close>

definition ftp_step ::
  "ftp_config \<Rightarrow> filesystem option \<Rightarrow> string \<Rightarrow> ftp_env \<Rightarrow> ftp_state \<Rightarrow> string \<Rightarrow> ftp_result" where
  "ftp_step cfg filesystem peer env st line =
     (let decoded = rstrip_chars crlf line;
          arg = snd (parse_command decoded);
          command_upper = upper (fst (parse_command decoded))
      in if command_upper = ''USER'' then handle_user cfg st arg
         else if command_upper = ''PASS'' then handle_pass cfg filesystem peer st arg
         else if \<not> st_authed st \<and> command_upper \<notin> {''USER'', ''PASS'', ''QUIT'', ''NOOP''}
           then reply [login_required_reply] [] st
         else if command_upper = ''SYST''
           then reply [(case syst_response cfg of None \<Rightarrow> ''215 UNIX Type: L8'' | Some r \<Rightarrow> r) @ crlf] [] st
         else if command_upper \<in> {''PWD'', ''XPWD''}
           then reply [''257 '' @ [CHR 0x22] @ st_cwd st @ [CHR 0x22] @ '' is the current directory'' @ crlf]
                  [ftp_command_event peer st ''PWD''] st
         else if command_upper = ''TYPE''
           then (if (if arg \<noteq> [] then upper arg else ''I'') \<in> {''I'', ''A''}
                 then reply [''200 Switching to Binary mode.'' @ crlf] [] st
                 else reply [''504 Command not implemented for that parameter.'' @ crlf] [] st)
         else if command_upper = ''FEAT''
           then reply (map (\<lambda>entry. entry @ crlf)
                         (case ftp_features cfg of
                            None \<Rightarrow> [''211-Features:'', '' UTF8'', '' SIZE'', ''211 End'']
                          | Some fs \<Rightarrow> fs)) [] st
         else if command_upper = ''PORT'' then handle_port peer st arg
         else if command_upper = ''PASV'' then handle_pasv peer env (close_passive st)
         else if command_upper = ''CWD'' then handle_cwd filesystem peer st arg
         else if command_upper \<in> {''LIST'', ''NLST'', ''XNLST''}
           then handle_list cfg filesystem peer env st command_upper arg
         else if command_upper = ''RETR'' then handle_retr filesystem peer env st arg
         else if command_upper = ''NOOP'' then reply [''200 NOOP ok.'' @ crlf] [] st
         else if command_upper = ''QUIT''
           then \<lparr>replies = [''221 Goodbye.'' @ crlf], logged = [], data_lines = [], next_state = None\<rparr>
         else handle_other cfg peer st command_upper decoded)"



text \<open>
  The PORT arguments that are refused, in words: not six comma-separated parts, or one
  of the first four parts is not an integer from 0 to 255, or the port
  \<open>p1 * 256 + p2\<close> (0 when \<open>p1\<close> or \<open>p2\<close> is not an integer) is not in the range
  from 1 to 65535.
\<close>

definition octet :: "string \<Rightarrow> bool" where
  "octet part = (case py_int part of None \<Rightarrow> False | Some n \<Rightarrow> 0 \<le> n \<and> n \<le> 255)"

definition port_number :: "string list \<Rightarrow> int" where
  "port_number parts =
     (case drop 4 parts of
        [part5, part6] \<Rightarrow>
          (case py_int part5 of
             None \<Rightarrow> 0
           | Some p1 \<Rightarrow> (case py_int part6 of None \<Rightarrow> 0 | Some p2 \<Rightarrow> p1 * 256 + p2))
      | _ \<Rightarrow> 0)"

definition port_refused :: "string \<Rightarrow> bool" where
  "port_refused arg =
     (length (split_on CHR '','' arg) \<noteq> 6 \<or>
      \<not> list_all octet (take 4 (split_on CHR '','' arg)) \<or>
      \<not> (0 < port_number (split_on CHR '','' arg) \<and> port_number (split_on CHR '','' arg) \<le> 65535))"

text \<open>Among the events of a result, the only one named \<open>login_attempt\<close> is the given
  one.\<close>

definition login_events_only :: "event \<Rightarrow> ftp_result \<Rightarrow> bool" where
  "login_events_only ev r = (\<forall>e \<in> set (logged r). fst e = ''login_attempt'' \<longrightarrow> e = ev)"

text \<open>Example data: a configuration with one user, a quiet network, and sessions.\<close>

definition ftp_sample :: ftp_config where
  "ftp_sample = \<lparr>ftp_users = [(''ftp'', \<lparr>passwords = [''anonymous''], home = Some ''/root'',
        motd = None, user_prompt = None, welcome_msg = None\<rparr>)],
     ftp_banner = None, default_home = None, syst_response = None, ftp_features = None,
     ftp_listing = None, ftp_command_responses = []\<rparr>"

definition quiet :: ftp_env where
  "quiet = \<lparr>pasv_sockname = Some (''0.0.0.0'', 50000), ctrl_sockname = ''192.168.1.10'',
     data_client = False, transfer = Delivered, exc_text = []\<rparr>"

definition logged_in :: ftp_state where
  "logged_in = \<lparr>st_username = Some ''ftp'', st_authed = True, st_cwd = ''/root'',
     st_home = ''/root'', st_active_target = None, st_passive = None\<rparr>"

definition awaiting_data :: ftp_state where
  "awaiting_data = logged_in\<lparr>st_passive := Some Pending\<rparr>"

section \<open>Facts about splitting and joining\<close>

lemma split_on_nonempty: "split_on c s \<noteq> []"
  by (induction s) (auto split: list.splits)

lemma split_on_no_sep: "p \<in> set (split_on c s) \<Longrightarrow> c \<notin> set p"
proof (induction s arbitrary: p)
  case Nil
  then show ?case by simp
next
  case (Cons x xs)
  show ?case
  proof (cases "x = c")
    case True
    with Cons show ?thesis by auto
  next
    case False
    obtain q qs where q: "split_on c xs = q # qs"
      using split_on_nonempty [of c xs] by (cases "split_on c xs") auto
    with False Cons.prems have "p = x # q \<or> p \<in> set qs" by auto
    then show ?thesis
    proof
      assume "p = x # q"
      moreover have "c \<notin> set q" using Cons.IH [of q] q by simp
      ultimately show ?thesis using False by auto
    next
      assume "p \<in> set qs"
      then show ?thesis using Cons.IH [of p] q by simp
    qed
  qed
qed

lemma split_on_plain: "c \<notin> set p \<Longrightarrow> split_on c p = [p]"
  by (induction p) auto

lemma split_on_append: "c \<notin> set p \<Longrightarrow> split_on c (p @ c # rest) = p # split_on c rest"
  by (induction p) auto

lemma split_on_join_cons:
  "\<forall>p \<in> set (x # ps). c \<notin> set p \<Longrightarrow> split_on c (join [c] (x # ps)) = x # ps"
proof (induction ps arbitrary: x)
  case Nil
  then show ?case by (simp add: split_on_plain)
next
  case (Cons y ys)
  have "split_on c (join [c] (y # ys)) = y # ys"
    using Cons.IH [of y] Cons.prems by simp
  moreover have "c \<notin> set x" using Cons.prems by simp
  ultimately show ?case
    using split_on_append [of c x "join [c] (y # ys)"] by simp
qed

lemma split_on_join:
  "ps \<noteq> [] \<Longrightarrow> \<forall>p \<in> set ps. c \<notin> set p \<Longrightarrow> split_on c (join [c] ps) = ps"
  using split_on_join_cons [of _ "tl ps" c] by (cases ps) auto

lemma normalize_loop_plain:
  "\<forall>p \<in> set parts. plain_part p \<Longrightarrow> normalize_loop base_parts parts = base_parts @ parts"
  by (induction parts arbitrary: base_parts) (auto simp: plain_part_def)

lemma normalize_loop_keeps_plain:
  "\<forall>p \<in> set base_parts. plain_part p \<Longrightarrow> \<forall>p \<in> set parts. CHR ''/'' \<notin> set p \<Longrightarrow>
   \<forall>p \<in> set (normalize_loop base_parts parts). plain_part p"
proof (induction parts arbitrary: base_parts)
  case Nil
  then show ?case by simp
next
  case (Cons part rest)
  have rest: "\<forall>p \<in> set rest. CHR ''/'' \<notin> set p"
    using Cons.prems(2) by simp
  consider (skip) "part = [] \<or> part = ''.''"
    | (up) "\<not> (part = [] \<or> part = ''.'')" "part = ''..''"
    | (down) "\<not> (part = [] \<or> part = ''.'')" "part \<noteq> ''..''"
    by blast
  then show ?case
  proof cases
    case skip
    have "normalize_loop base_parts (part # rest) = normalize_loop base_parts rest"
      using skip by auto
    then show ?thesis using Cons.IH [OF Cons.prems(1) rest] by simp
  next
    case up
    have bl: "\<forall>p \<in> set (butlast base_parts). plain_part p"
      using Cons.prems(1) by (meson in_set_butlastD)
    have eq: "normalize_loop base_parts (part # rest) =
          normalize_loop (if base_parts \<noteq> [] then butlast base_parts else base_parts) rest"
      using up by simp
    show ?thesis
    proof (cases "base_parts = []")
      case True
      then show ?thesis using eq Cons.IH [OF Cons.prems(1) rest] by simp
    next
      case False
      then show ?thesis using eq Cons.IH [OF bl rest] by simp
    qed
  next
    case down
    have "plain_part part"
      using down Cons.prems(2) by (simp add: plain_part_def)
    then have ext: "\<forall>p \<in> set (base_parts @ [part]). plain_part p"
      using Cons.prems(1) by auto
    have "normalize_loop base_parts (part # rest) = normalize_loop (base_parts @ [part]) rest"
      using down by simp
    then show ?thesis using Cons.IH [OF ext rest] by simp
  qed
qed

lemma cwd_parts_plain:
  "dotfree_cwd cwd \<Longrightarrow> \<forall>p \<in> set (cwd_parts cwd). plain_part p"
  unfolding dotfree_cwd_def cwd_parts_def plain_part_def
  by (auto simp: list_all_iff dest: split_on_no_sep)

lemma normalize_plain_parts:
  "\<forall>p \<in> set bp. plain_part p \<Longrightarrow> normalize (''/'' @ join ''/'' bp) cwd = ''/'' @ join ''/'' bp"
proof (cases "bp = []")
  case True
  then show ?thesis by (simp add: normalize_def startswith_def)
next
  case False
  assume plain: "\<forall>p \<in> set bp. plain_part p"
  then have nosep: "\<forall>p \<in> set bp. CHR ''/'' \<notin> set p" by (simp add: plain_part_def)
  have "split_on CHR ''/'' (''/'' @ join ''/'' bp) = [] # bp"
    using split_on_join [OF False nosep] by simp
  then show ?thesis
    using normalize_loop_plain [OF plain, of "[]"]
    by (simp add: normalize_def startswith_def)
qed

text \<open>Normalising a second time changes nothing, provided the working directory of the
  first call had no \<open>.\<close> or \<open>..\<close> component.\<close>

lemma normalize_stable:
  assumes "dotfree_cwd cwd"
  shows "normalize (normalize path cwd) cwd' = normalize path cwd"
proof -
  define p where "p = (if path = [] then ''.'' else path)"
  define b where "b = (if startswith p ''/'' then [] else cwd_parts cwd)"
  have "\<forall>q \<in> set b. plain_part q"
    using cwd_parts_plain [OF assms] by (simp add: b_def)
  then have "\<forall>q \<in> set (normalize_loop b (split_on CHR ''/'' p)). plain_part q"
    by (rule normalize_loop_keeps_plain) (auto dest: split_on_no_sep)
  then have "normalize (''/'' @ join ''/'' (normalize_loop b (split_on CHR ''/'' p))) cwd'
             = ''/'' @ join ''/'' (normalize_loop b (split_on CHR ''/'' p))"
    by (rule normalize_plain_parts)
  then show ?thesis
    by (simp add: normalize_def Let_def p_def b_def)
qed

lemma dotfree_root: "dotfree_cwd ''/''"
  by (simp add: dotfree_cwd_def cwd_parts_def strip_chars_def rstrip_chars_def)

section \<open>Claims about path normalisation\<close>

text \<open>
  C4 (as stated): for every path and every cwd,
  \<open>normalize (normalize path cwd) "/" = normalize path cwd\<close>.
  This fails when the working directory itself carries a \<open>.\<close> component: the
  components of \<open>cwd\<close> are copied into the result without being interpreted.
\<close>

theorem normalize_idempotent_counterexample:
  "normalize (normalize ''x'' ''.'') ''/'' \<noteq> normalize ''x'' ''.''"
  by (simp add: normalize_def cwd_parts_def strip_chars_def rstrip_chars_def startswith_def)

text \<open>
  C4 (amended): for every path and every cwd none of whose \<open>/\<close>-separated components
  is \<open>.\<close> or \<open>..\<close>, \<open>normalize (normalize path cwd) "/" = normalize path cwd\<close>.
\<close>

theorem normalize_idempotent:
  "dotfree_cwd cwd \<Longrightarrow> normalize (normalize path cwd) ''/'' = normalize path cwd"
  by (rule normalize_stable)

theorem normalize_idempotent_witness:
  "dotfree_cwd ''/var/www'' \<and>
   normalize (normalize ''../log/./x'' ''/var/www'') ''/'' = normalize ''../log/./x'' ''/var/www'' \<and>
   normalize ''../log/./x'' ''/var/www'' = ''/var/log/x''"
proof -
  have h: "dotfree_cwd ''/var/www''"
    by (simp add: dotfree_cwd_def cwd_parts_def strip_chars_def rstrip_chars_def)
  have v: "normalize ''../log/./x'' ''/var/www'' = ''/var/log/x''"
    by (simp add: normalize_def cwd_parts_def strip_chars_def rstrip_chars_def startswith_def)
  show ?thesis using h v normalize_idempotent [OF h, of "''../log/./x''"] by simp
qed

section \<open>Facts about resolution and home directories\<close>

lemma resolve_normalized:
  "resolve fs (normalize path ''/'') cwd' = resolve fs path ''/''"
  by (simp add: resolve_def normalize_stable [OF dotfree_root])

lemma ssh_resolve_home_spec: "ssh_resolve_home (Some fs) desired = home_or_root fs desired"
  by (simp add: ssh_resolve_home_def home_or_root_def resolves_to_directory_def
      resolve_normalized split: sum.splits)

lemma telnet_resolve_home_spec: "telnet_resolve_home (Some fs) desired = home_or_root fs desired"
  by (simp add: telnet_resolve_home_def home_or_root_def resolves_to_directory_def
      resolve_normalized split: sum.splits)

lemma ftp_resolve_home_spec: "ftp_resolve_home (Some fs) desired = home_or_root fs desired"
  by (simp add: ftp_resolve_home_def home_or_root_def resolves_to_directory_def
      resolve_normalized split: sum.splits)

text \<open>
  What the shell answers when the path of \<open>cat\<close> or \<open>cd\<close> cannot be resolved, on any
  filesystem: the text of the exception, which for a missing node is the name of the
  missing component and for a file on the way \<open><name> is not a directory\<close>.
\<close>

lemma ssh_cat_unresolved:
  assumes "split_ws command = ''cat'' # p # rest" and "resolve fs p cwd = Inl e"
  shows "ssh_execute_filesystem_command fs command cwd hm username
           = (Some (''bash: cat: '' @ exc_str e), cwd)"
proof -
  have "ssh_try_block fs ''cat'' (p # rest) cwd hm username = Inl e"
    using assms(2) by (simp add: ssh_try_block_def read_file_def)
  moreover have "isinstance_FilesystemError e"
    by (cases e) simp_all
  ultimately show ?thesis
    using assms(1) by (simp add: ssh_execute_filesystem_command_def)
qed

lemma ssh_cd_unresolved:
  assumes "split_ws command = ''cd'' # p # rest"
    and "resolve fs (normalize p cwd) ''/'' = Inl e"
  shows "ssh_execute_filesystem_command fs command cwd hm username
           = (Some (''bash: cd: '' @ exc_str e), cwd)"
proof -
  have "ssh_try_block fs ''cd'' (p # rest) cwd hm username = Inl e"
    using assms(2) by (simp add: ssh_try_block_def Let_def)
  moreover have "isinstance_FilesystemError e"
    by (cases e) simp_all
  ultimately show ?thesis
    using assms(1) by (simp add: ssh_execute_filesystem_command_def)
qed

lemma telnet_cat_unresolved:
  assumes "split_ws command = ''cat'' # p # rest" and "resolve fs p cwd = Inl e"
  shows "telnet_execute_filesystem_command fs command cwd hm username
           = (Some (''cat: '' @ exc_str e), cwd)"
proof -
  have "telnet_try_block fs ''cat'' (p # rest) cwd hm username = Inl e"
    using assms(2) by (simp add: telnet_try_block_def read_file_def)
  moreover have "isinstance_FilesystemError e"
    by (cases e) simp_all
  ultimately show ?thesis
    using assms(1) by (simp add: telnet_execute_filesystem_command_def)
qed

section \<open>Claims about the shell command set\<close>

text \<open>
  C1: for a path that does not resolve to an existing node, \<open>cat p\<close> and \<open>cd p\<close> answer
  with an error containing \<open>No such file or directory\<close>.  The code does not: on the
  filesystem with an empty root, \<open>cat nofile\<close> and \<open>cd nofile\<close> answer with the name of
  the missing component only, over SSH and over Telnet, because the handler for
  \<^verbatim>\<open>FilesystemError\<close> is tried first and also catches \<^verbatim>\<open>NodeNotFound\<close>.
\<close>

theorem missing_path_response:
  "ssh_execute_filesystem_command empty_fs ''cat nofile'' ''/'' ''/'' ''root''
     = (Some ''bash: cat: nofile'', ''/'') \<and>
   ssh_execute_filesystem_command empty_fs ''cd nofile'' ''/'' ''/'' ''root''
     = (Some ''bash: cd: nofile'', ''/'') \<and>
   telnet_execute_filesystem_command empty_fs ''cat nofile'' ''/'' ''/'' ''root''
     = (Some ''cat: nofile'', ''/'') \<and>
   telnet_execute_filesystem_command empty_fs ''cd nofile'' ''/'' ''/'' ''root''
     = (Some ''cd: nofile'', ''/'')"
  by code_simp

section \<open>Claims about home directories\<close>

text \<open>
  C10: in SSH, Telnet and FTP, with the filesystem attached, a home path that does not
  resolve to an existing directory (missing, a file, or an error during resolution)
  gives the working directory \<open>/\<close>; otherwise the working directory is the normalised
  home path.  This holds for the three copies of \<open>resolve_home\<close>, for the initial
  working directory of an SSH and of a Telnet session, and for the working directory
  that an FTP session starts in.
\<close>

theorem resolve_home_fallback:
  "ssh_resolve_home (Some fs) desired = home_or_root fs desired \<and>
   telnet_resolve_home (Some fs) desired = home_or_root fs desired \<and>
   ftp_resolve_home (Some fs) desired = home_or_root fs desired \<and>
   ssh_initial_cwd us (Some fs) username = home_or_root fs (user_home us username) \<and>
   telnet_initial_cwd u (Some fs) = home_or_root fs (case home u of None \<Rightarrow> ''/'' | Some h \<Rightarrow> h) \<and>
   st_cwd (initial_state cfg (Some fs)) = home_or_root fs (the_default_home cfg)"
  by (simp add: ssh_resolve_home_spec telnet_resolve_home_spec ftp_resolve_home_spec
      ssh_initial_cwd_def telnet_initial_cwd_def initial_state_def)

section \<open>Facts about listings\<close>

lemma digit_char_digit: "d < 10 \<Longrightarrow> digit_char d \<in> set ''0123456789''"
  unfolding digit_char_def by (rule nth_mem) simp

lemma str_nat_digits: "set (str_nat n) \<subseteq> set ''0123456789''"
proof (induction n rule: str_nat.induct)
  case (1 n)
  show ?case
  proof (cases "n < 10")
    case True
    then show ?thesis
      using digit_char_digit [of n] by (subst str_nat.simps) simp
  next
    case False
    have "digit_char (n mod 10) \<in> set ''0123456789''"
      by (rule digit_char_digit) simp
    then show ?thesis
      using False "1.IH" by (subst str_nat.simps) simp
  qed
qed

lemma str_int_no_newline: "CHR 0x0A \<notin> set (str_int i)"
  using str_nat_digits [of "nat i"] str_nat_digits [of "nat (- i)"]
  by (auto simp: str_int_def)

lemma total_line_no_newline: "CHR 0x0A \<notin> set (total_line nodes)"
  using str_int_no_newline by (simp add: total_line_def)

lemma first_line_join:
  "CHR 0x0A \<notin> set l \<Longrightarrow> first_line (join [CHR 0x0A] (l # ls)) = l"
proof (cases ls)
  case Nil
  assume "CHR 0x0A \<notin> set l"
  then show ?thesis using Nil by (auto simp: first_line_def takeWhile_eq_all_conv)
next
  case (Cons y ys)
  assume "CHR 0x0A \<notin> set l"
  then have "takeWhile (\<lambda>c. c \<noteq> CHR 0x0A) (l @ CHR 0x0A # join [CHR 0x0A] (y # ys)) = l"
    by (auto simp: takeWhile_tail takeWhile_eq_all_conv)
  then show ?thesis using Cons by (simp add: first_line_def)
qed

lemma sum_list_filter_sort_key:
  fixes f :: "'a \<Rightarrow> int"
  shows "sum_list (map f (filter P (sort_key k xs))) = sum_list (map f (filter P xs))"
proof -
  have "mset (map f (filter P (sort_key k xs))) = mset (map f (filter P xs))"
    by simp
  then have "sum_mset (mset (map f (filter P (sort_key k xs))))
             = sum_mset (mset (map f (filter P xs)))"
    by (rule arg_cong)
  then show ?thesis by (simp only: sum_mset_sum_list)
qed

lemma list_directory_directory:
  assumes "resolve fs path cwd = Inr target" and "is_dir (node target)"
  shows "list_directory fs path cwd include_hidden =
           Inr (map (\<lambda>c. Ref c (node target # ancestors target))
                  (filter (\<lambda>c. include_hidden \<or> \<not> startswith (name c) ''.'')
                     (sort_key name (children (node target)))))"
  using assms by (simp add: list_directory_def)

lemma total_line_listing:
  "total_line (map (\<lambda>c. Ref c anc)
       (filter (\<lambda>c. include_hidden \<or> \<not> startswith (name c) ''.'')
          (sort_key name (children d))))
   = ''total '' @ str_int (sum_list (map (\<lambda>c. max 1 (node_size c div 1024))
                                        (listed_children include_hidden d)))"
  unfolding total_line_def listed_children_def
  by (simp only: map_map comp_def ref.sel sum_list_filter_sort_key)

lemma format_ls_directory:
  assumes "resolve fs path cwd = Inr target" and "is_dir (node target)"
  shows "\<exists>rest. format_ls fs path cwd True include_hidden =
           Inr (join [CHR 0x0A]
             ((''total '' @ str_int (sum_list (map (\<lambda>c. max 1 (node_size c div 1024))
                 (listed_children include_hidden (node target))))) # rest))"
proof -
  define nodes where "nodes = map (\<lambda>c. Ref c (node target # ancestors target))
                  (filter (\<lambda>c. include_hidden \<or> \<not> startswith (name c) ''.'')
                     (sort_key name (children (node target))))"
  have ld: "list_directory fs path cwd include_hidden = Inr nodes"
    unfolding nodes_def by (rule list_directory_directory [OF assms])
  have tl: "total_line nodes = ''total '' @ str_int (sum_list (map (\<lambda>c. max 1 (node_size c div 1024))
                 (listed_children include_hidden (node target))))"
    unfolding nodes_def by (rule total_line_listing)
  have "format_ls fs path cwd True include_hidden =
           Inr (join [CHR 0x0A] (total_line nodes #
             ((if include_hidden
               then [describe_special target True ''.'',
                     describe_special (case parent target of Some p \<Rightarrow> p | None \<Rightarrow> target)
                       True ''..'']
               else [])
              @ map (\<lambda>n. describe_node n True) nodes)))"
    using assms ld by (simp add: format_ls_def del: join.simps)
  then have "\<exists>rest. format_ls fs path cwd True include_hidden =
           Inr (join [CHR 0x0A] (total_line nodes # rest))"
    by blast
  then show ?thesis unfolding tl .
qed

section \<open>Claims about listings\<close>

text \<open>
  C7 (as stated): the first line of a detailed listing is \<open>total N\<close>, \<open>N\<close> the sum of
  \<open>max(1, size // 1024)\<close> over the children of the directory.  This fails when the
  directory has a hidden child and hidden entries are not listed: the only child of the
  root of \<open>hidden_fs\<close> is \<open>.profile\<close>, the claim's sum is 1, and the listing is \<open>total 0\<close>.
\<close>

theorem format_ls_total_counterexample:
  "format_ls hidden_fs ''/'' ''/'' True False = Inr ''total 0'' \<and>
   sum_list (map (\<lambda>c. max 1 (node_size c div 1024)) (children (root hidden_fs))) = 1"
  by code_simp

text \<open>
  C7 (amended): for every directory listed in detailed mode, the first output line is
  \<open>total N\<close>, where \<open>N\<close> is the sum of \<open>max(1, size // 1024)\<close> over the children that
  the listing shows: all children when hidden entries are included, and the children
  whose name does not start with a dot otherwise.
\<close>

theorem format_ls_total:
  assumes "resolve fs path cwd = Inr target" and "is_dir (node target)"
  shows "\<exists>out. format_ls fs path cwd True include_hidden = Inr out \<and>
           first_line out =
             ''total '' @ str_int (sum_list (map (\<lambda>c. max 1 (node_size c div 1024))
                                      (listed_children include_hidden (node target))))"
proof -
  let ?t = "''total '' @ str_int (sum_list (map (\<lambda>c. max 1 (node_size c div 1024))
                                      (listed_children include_hidden (node target))))"
  obtain rest where out: "format_ls fs path cwd True include_hidden
                            = Inr (join [CHR 0x0A] (?t # rest))"
    using format_ls_directory [OF assms] by blast
  have "CHR 0x0A \<notin> set ?t"
    using str_int_no_newline by simp
  then have "first_line (join [CHR 0x0A] (?t # rest)) = ?t"
    by (rule first_line_join)
  with out show ?thesis by simp
qed

theorem format_ls_total_witness:
  "resolve sample_fs ''/root'' ''/'' =
     Inr (Ref (hd (children (root sample_fs))) [root sample_fs]) \<and>
   is_dir (hd (children (root sample_fs))) \<and>
   (\<exists>out. format_ls sample_fs ''/root'' ''/'' True False = Inr out \<and>
          first_line out = ''total 1'')"
proof -
  have r: "resolve sample_fs ''/root'' ''/'' =
             Inr (Ref (hd (children (root sample_fs))) [root sample_fs])"
    by code_simp
  have d: "is_dir (node (Ref (hd (children (root sample_fs))) [root sample_fs]))"
    by code_simp
  have n: "''total '' @ str_int (sum_list (map (\<lambda>c. max 1 (node_size c div 1024))
             (listed_children False (node (Ref (hd (children (root sample_fs))) [root sample_fs])))))
           = ''total 1''"
    by code_simp
  show ?thesis
    using r d format_ls_total [OF r d, of False] unfolding n by simp
qed

section \<open>Facts about dictionaries\<close>

lemma map_of_replace:
  "map_of (map (\<lambda>kv. if fst kv = k then (k, v) else kv) d) k' =
     (if k' = k then (case map_of d k of None \<Rightarrow> None | Some old \<Rightarrow> Some v) else map_of d k')"
  by (induction d) auto

lemma map_of_dict_set: "map_of (dict_set k v d) k' = (if k' = k then Some v else map_of d k')"
  by (cases "map_of d k") (auto simp: dict_set_def map_of_replace map_add_def split: option.splits)

lemma map_of_setdefault:
  "map_of (setdefault k v d) k' =
     (if k' = k then (case map_of d k of None \<Rightarrow> Some v | Some old \<Rightarrow> Some old) else map_of d k')"
  by (cases "map_of d k") (auto simp: setdefault_def map_add_def split: option.splits)

lemma dict_keys_dict_set: "dict_keys (dict_set k v d) = insert k (dict_keys d)"
proof (cases "map_of d k")
  case None
  then show ?thesis by (simp add: dict_set_def dict_keys_def)
next
  case (Some old)
  then have "k \<in> fst ` set d"
    by (meson domI domIff map_of_eq_None_iff)
  moreover have "fst ` set (map (\<lambda>kv. if fst kv = k then (k, v) else kv) d) = fst ` set d"
    by (induction d) auto
  ultimately show ?thesis using Some by (auto simp: dict_set_def dict_keys_def)
qed

lemma dict_keys_dict_update: "dict_keys (dict_update d e) = dict_keys d \<union> dict_keys e"
proof -
  have "dict_keys (foldl (\<lambda>acc kv. dict_set (fst kv) (snd kv) acc) d e) = dict_keys d \<union> fst ` set e"
    by (induction e arbitrary: d) (auto simp: dict_keys_dict_set)
  then show ?thesis by (simp add: dict_update_def dict_keys_def)
qed

section \<open>Claims about the MySQL service\<close>

text \<open>
  C3 (as stated): for every configuration, a line equal to \<open>quit\<close> or \<open>exit\<close> makes the
  server write the farewell and close.  This fails for a configuration whose
  \<open>command_responses\<close> has the key \<open>QUIT\<close>: the line \<open>quit\<close> is answered with the
  configured text and the server prompts again.
\<close>

theorem mysql_quit_counterexample:
  "fst (mysql_loop mysql_sticky ''10.0.0.5:4711'' [''quit'' @ [CHR 0x0A]])
     = [''mysql> '', ''Query OK'' @ [CHR 0x0A], ''mysql> '']"
  by code_simp

text \<open>
  C3 (amended): the table \<open>command_responses\<close>, with its keys in lower case, is
  consulted first.  A line that after stripping equals \<open>quit\<close> or \<open>exit\<close> in any case,
  and whose lower-case form is not a key of the table, makes the server write the
  farewell and a newline and end the session, whatever follows; when it is a key, the
  line is answered from the table and the session goes on.  A non-empty line that is not
  \<open>quit\<close> or \<open>exit\<close> is answered from the table, or else with \<open>default_response\<close>.
\<close>

theorem mysql_quit_exit:
  "(lower (strip data) \<in> {''quit'', ''exit''} \<longrightarrow>
      mysql_loop cfg peer (data # rest) =
        (case command_responses cfg (lower (strip data)) of
           None \<Rightarrow> ([the_prompt cfg, the_farewell cfg @ [CHR 0x0A]],
                     [mysql_command_event peer (strip data) ''BYE''])
         | Some response \<Rightarrow>
             emit [the_prompt cfg, response @ [CHR 0x0A]]
               [mysql_command_event peer (strip data) (take 160 response)]
               (mysql_loop cfg peer rest))) \<and>
   (strip data \<noteq> [] \<and> lower (strip data) \<notin> {''quit'', ''exit''} \<longrightarrow>
      mysql_loop cfg peer (data # rest) =
        (let response = (case command_responses cfg (lower (strip data)) of
                           None \<Rightarrow> the_default_response cfg
                         | Some r \<Rightarrow> r)
         in emit [the_prompt cfg, response @ [CHR 0x0A]]
              [mysql_command_event peer (strip data) (take 160 response)]
              (mysql_loop cfg peer rest)))"
proof -
  have nonempty: "lower (strip data) \<in> {''quit'', ''exit''} \<Longrightarrow> strip data \<noteq> []"
    by (auto simp: lower_def)
  show ?thesis
    using nonempty by (auto simp: Let_def split: option.splits)
qed

theorem mysql_quit_exit_witness:
  "lower (strip ('' QUIT'' @ [CHR 0x0D, CHR 0x0A])) \<in> {''quit'', ''exit''} \<and>
   mysql_loop mysql_defaults ''peer'' [('' QUIT'' @ [CHR 0x0D, CHR 0x0A]), ''select 1;'']
     = ([''mysql> '', ''Bye'' @ [CHR 0x0A]], [mysql_command_event ''peer'' ''QUIT'' ''BYE'']) \<and>
   strip ''Show Databases; '' \<noteq> [] \<and>
   lower (strip ''Show Databases; '') \<notin> {''quit'', ''exit''} \<and>
   fst (mysql_loop mysql_defaults ''peer'' [''Show Databases; ''])
     = [''mysql> '', ''Database'' @ [CHR 0x0A], ''mysql> '']"
proof -
  have q: "lower (strip ('' QUIT'' @ [CHR 0x0D, CHR 0x0A])) \<in> {''quit'', ''exit''}"
    by code_simp
  have s: "strip ('' QUIT'' @ [CHR 0x0D, CHR 0x0A]) = ''QUIT''"
    by code_simp
  have l: "lower ''QUIT'' = ''quit''"
    by code_simp
  have n: "command_responses mysql_defaults ''quit'' = None"
    by code_simp
  have p: "the_prompt mysql_defaults = ''mysql> ''" "the_farewell mysql_defaults = ''Bye''"
    by code_simp+
  have d: "strip ''Show Databases; '' \<noteq> []"
    "lower (strip ''Show Databases; '') \<notin> {''quit'', ''exit''}"
    by code_simp+
  have t: "strip ''Show Databases; '' = ''Show Databases;''"
    "lower ''Show Databases;'' = ''show databases;''"
    by code_simp+
  have r: "command_responses mysql_defaults ''show databases;'' = Some ''Database''"
    by code_simp
  have e: "mysql_loop mysql_defaults ''peer'' [] = ([''mysql> ''], [])"
    by code_simp
  have one: "mysql_loop mysql_defaults ''peer'' [('' QUIT'' @ [CHR 0x0D, CHR 0x0A]), ''select 1;'']
     = ([''mysql> '', ''Bye'' @ [CHR 0x0A]], [mysql_command_event ''peer'' ''QUIT'' ''BYE''])"
    using mysql_quit_exit [of "'' QUIT'' @ [CHR 0x0D, CHR 0x0A]" mysql_defaults "''peer''" "[''select 1;'']"]
    unfolding s l n p by (simp del: mysql_loop.simps)
  have two: "fst (mysql_loop mysql_defaults ''peer'' [''Show Databases; ''])
     = [''mysql> '', ''Database'' @ [CHR 0x0A], ''mysql> '']"
    using mysql_quit_exit [of "''Show Databases; ''" mysql_defaults "''peer''" "[]"]
    unfolding t r e p by (simp add: emit_def del: mysql_loop.simps)
  show ?thesis using q one d two by blast
qed

section \<open>Claims about the HTTP service\<close>

lemma not_found_body_length: "utf8_len (''404 Not Found'' @ [CHR 0x0A]) = 14"
  by code_simp

lemma str_404: "str_int 404 = ''404''"
  by code_simp

lemma str_14: "str_nat 14 = ''14''"
  by code_simp

lemma status_text_404: "STATUS_TEXT 404 = ''Not Found''"
  by (simp add: STATUS_TEXT_def)

lemma mem_dict_set_same: "(k, v') \<in> set (dict_set k v d) \<longleftrightarrow> v' = v"
proof (cases "map_of d k")
  case None
  then have "(k, v') \<notin> set d"
    by (metis map_of_eq_None_iff image_eqI fst_conv)
  then show ?thesis using None by (auto simp: dict_set_def)
next
  case (Some old)
  then obtain w where "(k, w) \<in> set d"
    by (meson map_of_SomeD)
  then have "(k, v) \<in> set (map (\<lambda>kv. if fst kv = k then (k, v) else kv) d)"
    by force
  moreover have "(k, v') \<in> set (map (\<lambda>kv. if fst kv = k then (k, v) else kv) d) \<Longrightarrow> v' = v"
    by (auto split: if_splits)
  ultimately show ?thesis using Some by (auto simp: dict_set_def)
qed

lemma mem_dict_set_other:
  "k' \<noteq> k \<Longrightarrow> (k', v') \<in> set (dict_set k v d) \<longleftrightarrow> (k', v') \<in> set d"
  by (cases "map_of d k") (auto simp: dict_set_def split: if_splits)

text \<open>After the updates the dictionary has one \<open>Content-Length\<close> and one \<open>Server\<close>
  entry, with the computed length and the configured server name.\<close>

lemma final_headers_entries:
  "((''Content-Length'', v) \<in> set (final_headers cfg date len hs) \<longleftrightarrow> v = str_nat len) \<and>
   ((''Server'', w) \<in> set (final_headers cfg date len hs) \<longleftrightarrow> w = the_server_header cfg)"
  by (simp add: final_headers_def mem_dict_set_same mem_dict_set_other)

lemma header_blob_lines:
  "header_blob hs = concat (map (\<lambda>kv. fst kv @ '': '' @ snd kv @ [CHR 0x0D, CHR 0x0A]) hs)"
  by (simp add: header_blob_def)

text \<open>
  C6: a request that matches no route, under a configuration with no \<open>not_found\<close> route
  and the default status 404, is answered with the text made of the status line
  \<open><version> 404 Not Found\<close>, one line \<open><name>: <value>\<close> for each header, an empty
  line, and the body \<open>404 Not Found\<close> with a newline; each line before the body ends
  with a carriage return and a line feed.  Among the headers there is a
  \<open>Content-Length\<close> header, and its value is 14; there is a \<open>Server\<close> header, and its
  value is the configured \<open>server_header\<close>; neither name occurs with any other value.
\<close>

theorem route_miss_response:
  assumes "match_route (routes cfg) method path = None"
    and "not_found cfg = None"
    and "the_default_status cfg = 404"
  shows "\<exists>hs. build_response cfg files date (match_route (routes cfg) method path) method path version
                = Inr (version @ '' 404 Not Found'' @ [CHR 0x0D, CHR 0x0A]
                       @ concat (map (\<lambda>kv. fst kv @ '': '' @ snd kv @ [CHR 0x0D, CHR 0x0A]) hs)
                       @ [CHR 0x0D, CHR 0x0A]
                       @ ''404 Not Found'' @ [CHR 0x0A]) \<and>
              (\<forall>v. (''Content-Length'', v) \<in> set hs \<longleftrightarrow> v = ''14'') \<and>
              (\<forall>v. (''Server'', v) \<in> set hs \<longleftrightarrow> v = the_server_header cfg)"
proof -
  let ?hs = "final_headers cfg date 14 (default_headers cfg)"
  have sel: "select_response cfg files None =
               Inr (404, ''404 Not Found'' @ [CHR 0x0A], 14, default_headers cfg)"
    using assms(2,3) not_found_body_length
    by (simp add: select_response_def str_404 status_text_404)
  have resp: "build_response cfg files date None method path version
          = Inr (version @ '' 404 Not Found'' @ [CHR 0x0D, CHR 0x0A]
                 @ concat (map (\<lambda>kv. fst kv @ '': '' @ snd kv @ [CHR 0x0D, CHR 0x0A]) ?hs)
                 @ [CHR 0x0D, CHR 0x0A] @ ''404 Not Found'' @ [CHR 0x0A])"
    by (simp add: build_response_def response_parts_def sel str_404 status_text_404
        header_blob_lines)
  have len: "\<forall>v. (''Content-Length'', v) \<in> set ?hs \<longleftrightarrow> v = ''14''"
    using final_headers_entries [of _ cfg date 14 "default_headers cfg"] by (simp add: str_14)
  have srv: "\<forall>v. (''Server'', v) \<in> set ?hs \<longleftrightarrow> v = the_server_header cfg"
    using final_headers_entries [of _ cfg date 14 "default_headers cfg"] by simp
  have "build_response cfg files date (match_route (routes cfg) method path) method path version
          = Inr (version @ '' 404 Not Found'' @ [CHR 0x0D, CHR 0x0A]
                 @ concat (map (\<lambda>kv. fst kv @ '': '' @ snd kv @ [CHR 0x0D, CHR 0x0A]) ?hs)
                 @ [CHR 0x0D, CHR 0x0A] @ ''404 Not Found'' @ [CHR 0x0A])"
    using resp assms(1) by simp
  then show ?thesis
    using len srv by (intro exI [of _ ?hs] conjI)
qed

theorem route_miss_response_witness:
  "match_route (routes http_sample) ''GET'' ''/nope'' = None \<and>
   not_found http_sample = None \<and>
   the_default_status http_sample = 404 \<and>
   build_response http_sample Map.empty ''Tue, 03 Nov 2026 10:00:00 GMT''
       (match_route (routes http_sample) ''GET'' ''/nope'') ''GET'' ''/nope'' ''HTTP/1.0''
     = Inr (''HTTP/1.0 404 Not Found'' @ [CHR 0x0D, CHR 0x0A]
            @ ''X-Powered-By: PHP/7.4'' @ [CHR 0x0D, CHR 0x0A]
            @ ''Server: nginx'' @ [CHR 0x0D, CHR 0x0A]
            @ ''Content-Type: text/html; charset=utf-8'' @ [CHR 0x0D, CHR 0x0A]
            @ ''Connection: close'' @ [CHR 0x0D, CHR 0x0A]
            @ ''Date: Tue, 03 Nov 2026 10:00:00 GMT'' @ [CHR 0x0D, CHR 0x0A]
            @ ''Content-Length: 14'' @ [CHR 0x0D, CHR 0x0A]
            @ [CHR 0x0D, CHR 0x0A]
            @ ''404 Not Found'' @ [CHR 0x0A])"
proof -
  have m: "match_route (routes http_sample) ''GET'' ''/nope'' = None"
    by code_simp
  have n: "not_found http_sample = None"
    by code_simp
  have d: "the_default_status http_sample = 404"
    by code_simp
  have s: "the_server_header http_sample = ''nginx''"
    by code_simp
  obtain hs where
    resp: "build_response http_sample Map.empty ''Tue, 03 Nov 2026 10:00:00 GMT''
             (match_route (routes http_sample) ''GET'' ''/nope'') ''GET'' ''/nope'' ''HTTP/1.0''
           = Inr (''HTTP/1.0'' @ '' 404 Not Found'' @ [CHR 0x0D, CHR 0x0A]
                  @ concat (map (\<lambda>kv. fst kv @ '': '' @ snd kv @ [CHR 0x0D, CHR 0x0A]) hs)
                  @ [CHR 0x0D, CHR 0x0A] @ ''404 Not Found'' @ [CHR 0x0A])"
    and len: "\<forall>v. (''Content-Length'', v) \<in> set hs \<longleftrightarrow> v = ''14''"
    using route_miss_response [OF m n d, of Map.empty "''Tue, 03 Nov 2026 10:00:00 GMT''" "''HTTP/1.0''"]
    by blast
  have whole: "build_response http_sample Map.empty ''Tue, 03 Nov 2026 10:00:00 GMT''
       None ''GET'' ''/nope'' ''HTTP/1.0''
     = Inr (''HTTP/1.0 404 Not Found'' @ [CHR 0x0D, CHR 0x0A]
            @ ''X-Powered-By: PHP/7.4'' @ [CHR 0x0D, CHR 0x0A]
            @ ''Server: nginx'' @ [CHR 0x0D, CHR 0x0A]
            @ ''Content-Type: text/html; charset=utf-8'' @ [CHR 0x0D, CHR 0x0A]
            @ ''Connection: close'' @ [CHR 0x0D, CHR 0x0A]
            @ ''Date: Tue, 03 Nov 2026 10:00:00 GMT'' @ [CHR 0x0D, CHR 0x0A]
            @ ''Content-Length: 14'' @ [CHR 0x0D, CHR 0x0A]
            @ [CHR 0x0D, CHR 0x0A]
            @ ''404 Not Found'' @ [CHR 0x0A])"
    by code_simp
  have "(''Content-Length'', ''14'') \<in> set hs"
    using len by simp
  then show ?thesis
    using m n d whole resp unfolding m by (intro conjI) simp_all
qed

section \<open>Facts about the FTP command loop\<close>


lemma handle_pass_refused:
  "\<not> pass_accepted cfg st password \<Longrightarrow>
   handle_pass cfg filesystem peer st password =
     reply [''530 Login incorrect.'' @ crlf]
       [login_event peer st password (pass_success cfg st password)] (st\<lparr>st_authed := False\<rparr>)"
  by (simp add: handle_pass_def Let_def)

lemma step_pass:
  "command_of line = ''PASS'' \<Longrightarrow>
   ftp_step cfg filesystem peer env st line =
     handle_pass cfg filesystem peer st (snd (parse_command (rstrip_chars crlf line)))"
  by (simp add: ftp_step_def command_of_def Let_def)






section \<open>Claims about FTP authentication\<close>



section \<open>Facts about the FTP data channel\<close>

lemma prepare_times_out:
  assumes "st_active_target st = None" and "st_passive st = Some Pending"
    and "\<not> data_client env"
  shows "prepare_data_channel env st = Missing [timed_out_reply] (st\<lparr>st_passive := Some Cancelled\<rparr>)"
  using assms by (simp add: prepare_data_channel_def)

text \<open>A wait that times out, in any authenticated session: both replies are written, and
  the listener is kept with its future cancelled.\<close>

lemma list_times_out:
  assumes "st_authed st" and "st_active_target st = None" and "st_passive st = Some Pending"
    and "\<not> data_client env"
    and "command_of line \<in> {''LIST'', ''NLST'', ''XNLST''}"
  shows "ftp_step cfg filesystem peer env st line =
           reply [timed_out_reply, no_channel_reply] [] (st\<lparr>st_passive := Some Cancelled\<rparr>)"
proof -
  have "ftp_step cfg filesystem peer env st line =
          handle_list cfg filesystem peer env st (command_of line)
            (snd (parse_command (rstrip_chars crlf line)))"
  proof -
    consider "command_of line = ''LIST''" | "command_of line = ''NLST''"
      | "command_of line = ''XNLST''"
      using assms(5) by auto
    then show ?thesis
    proof cases
      case 1
      then show ?thesis using assms(1) by (simp add: ftp_step_def command_of_def Let_def)
    next
      case 2
      then show ?thesis using assms(1) by (simp add: ftp_step_def command_of_def Let_def)
    next
      case 3
      then show ?thesis using assms(1) by (simp add: ftp_step_def command_of_def Let_def)
    qed
  qed
  then show ?thesis
    using prepare_times_out [OF assms(2,3,4)] by (simp add: handle_list_def)
qed

lemma retr_times_out:
  assumes "st_authed st" and "st_active_target st = None" and "st_passive st = Some Pending"
    and "\<not> data_client env"
    and "command_of line = ''RETR''"
  shows "ftp_step cfg filesystem peer env st line =
           reply [timed_out_reply, no_channel_reply] [] (st\<lparr>st_passive := Some Cancelled\<rparr>)"
proof -
  have "ftp_step cfg filesystem peer env st line =
          handle_retr filesystem peer env st (snd (parse_command (rstrip_chars crlf line)))"
    using assms(1,5) by (simp add: ftp_step_def command_of_def Let_def)
  then show ?thesis
    using prepare_times_out [OF assms(2,3,4)] by (simp add: handle_retr_def)
qed

section \<open>Claims about the FTP data channel\<close>

text \<open>
  C2: when \<open>LIST\<close>, \<open>NLST\<close> or \<open>RETR\<close> finds no active target but a pending passive
  listener, and no data client connects in time, the whole reply is the line
  \<open>425 Passive data connection timed out.\<close> and the listener is cleaned up.  The code
  does otherwise: in a logged-in session with a pending passive listener and no data
  client, \<open>LIST\<close> and \<open>RETR\<close> are each answered with two lines, the second being
  \<open>425 Use PORT or PASV first.\<close>, and the listener stays in place with its future
  cancelled.
\<close>

theorem passive_timeout_replies:
  "st_authed awaiting_data \<and> st_active_target awaiting_data = None \<and>
   st_passive awaiting_data = Some Pending \<and> \<not> data_client quiet \<and>
   ftp_step ftp_sample (Some sample_fs) ''peer'' quiet awaiting_data (''LIST'' @ crlf)
     = reply [''425 Passive data connection timed out.'' @ crlf, ''425 Use PORT or PASV first.'' @ crlf]
         [] (awaiting_data\<lparr>st_passive := Some Cancelled\<rparr>) \<and>
   ftp_step ftp_sample (Some sample_fs) ''peer'' quiet awaiting_data (''RETR readme.md'' @ crlf)
     = reply [''425 Passive data connection timed out.'' @ crlf, ''425 Use PORT or PASV first.'' @ crlf]
         [] (awaiting_data\<lparr>st_passive := Some Cancelled\<rparr>)"
proof -
  have s: "st_authed awaiting_data" "st_active_target awaiting_data = None"
    "st_passive awaiting_data = Some Pending"
    by (simp_all add: awaiting_data_def logged_in_def)
  have e: "\<not> data_client quiet"
    by (simp add: quiet_def)
  have l: "command_of (''LIST'' @ crlf) \<in> {''LIST'', ''NLST'', ''XNLST''}"
    by code_simp
  have r: "command_of (''RETR readme.md'' @ crlf) = ''RETR''"
    by code_simp
  show ?thesis
    using s e list_times_out [OF s e l] retr_times_out [OF s e r]
    by (simp add: timed_out_reply_def no_channel_reply_def)
qed

section \<open>Facts about PORT arguments\<close>

lemma length_split_on: "length (split_on c s) = Suc (length (filter (\<lambda>x. x = c) s))"
proof (induction s)
  case Nil
  then show ?case by simp
next
  case (Cons x xs)
  obtain q qs where "split_on c xs = q # qs"
    using split_on_nonempty [of c xs] by (cases "split_on c xs") auto
  with Cons show ?case by auto
qed

lemma split_on_quad:
  "length (split_on CHR ''.'' (join ''.'' [h1, h2, h3, h4])) = 4
     \<longleftrightarrow> (\<forall>h \<in> set [h1, h2, h3, h4]. CHR ''.'' \<notin> set h)"
  by (auto simp: length_split_on filter_empty_conv)

lemma in_int_strip: "c \<in> set s \<Longrightarrow> \<not> is_int_space c \<Longrightarrow> c \<in> set (int_strip s)"
proof -
  assume c: "c \<in> set s" and n: "\<not> is_int_space c"
  have drop: "\<And>xs. c \<in> set xs \<Longrightarrow> c \<in> set (dropWhile is_int_space xs)"
  proof -
    fix xs assume "c \<in> set xs"
    then have "c \<in> set (takeWhile is_int_space xs) \<or> c \<in> set (dropWhile is_int_space xs)"
      by (metis Un_iff set_append takeWhile_dropWhile_id)
    then show "c \<in> set (dropWhile is_int_space xs)"
      using n by (auto dest: set_takeWhileD)
  qed
  have "c \<in> set (rev (dropWhile is_int_space s))"
    using drop [OF c] by simp
  then have "c \<in> set (dropWhile is_int_space (rev (dropWhile is_int_space s)))"
    by (rule drop)
  then show ?thesis by (simp add: int_strip_def)
qed

lemma digits_ok_chars: "digits_ok ds \<Longrightarrow> c \<in> set ds \<Longrightarrow> is_digit c \<or> c = CHR ''_''"
  by (induction ds rule: digits_ok.induct) (auto split: if_splits)

lemma dot_is_no_digit: "\<not> is_digit CHR ''.'' \<and> \<not> is_int_space CHR ''.''"
  by code_simp

lemma parse_digits_ok: "parse_digits ds = Some n \<Longrightarrow> digits_ok ds"
  by (simp add: parse_digits_def split: if_splits)

lemma py_int_no_dot:
  assumes "py_int s = Some n"
  shows "CHR ''.'' \<notin> set s"
proof
  assume "CHR ''.'' \<in> set s"
  then have inner: "CHR ''.'' \<in> set (int_strip s)"
    using dot_is_no_digit by (simp add: in_int_strip)
  then obtain c rest where cr: "int_strip s = c # rest"
    by (cases "int_strip s") auto
  have ok: "digits_ok rest \<or> digits_ok (c # rest)"
    using assms cr by (auto simp: py_int_def split: if_splits dest: parse_digits_ok)
  have "CHR ''.'' \<in> set rest \<or> (CHR ''.'' = c \<and> digits_ok (c # rest))"
    using inner cr assms by (auto simp: py_int_def split: if_splits dest: parse_digits_ok)
  then show False
    using ok digits_ok_chars [of rest "CHR ''.''"] digits_ok_chars [of "c # rest" "CHR ''.''"]
      dot_is_no_digit
    by auto
qed

text \<open>The digit limit: a part of 4301 zeros is no integer for \<open>int\<close>; and a separator
  of the range 28 to 31 before a digit is not ignored.\<close>

lemma digits_ok_zeros: "digits_ok (replicate (Suc n) CHR ''0'')"
proof (induction n)
  case 0
  show ?case by (simp add: is_digit_def)
next
  case (Suc n)
  then show ?case by (simp add: is_digit_def)
qed

lemma py_int_zeros:
  "py_int (replicate (Suc n) CHR ''0'') = (if Suc n \<le> max_str_digits then Some 0 else None)"
proof -
  have sp: "\<not> is_int_space CHR ''0''"
    by code_simp
  have st0: "int_strip (replicate (Suc n) CHR ''0'') = replicate (Suc n) CHR ''0''"
    using sp by (simp add: int_strip_def dropWhile_replicate del: replicate_Suc)
  have val: "digits_value (replicate (Suc n) CHR ''0'') = 0"
  proof -
    have "\<And>acc. foldl (\<lambda>acc c. acc * 10 + (int (of_char c) - 48)) acc (replicate m CHR ''0'')
                  = acc * 10 ^ m" for m
      by (induction m) (simp_all add: algebra_simps)
    then show ?thesis
      by (simp add: digits_value_def digit_chars_def del: replicate_Suc)
  qed
  have len: "length (digit_chars (replicate (Suc n) CHR ''0'')) = Suc n"
    by (simp add: digit_chars_def del: replicate_Suc)
  have "parse_digits (replicate (Suc n) CHR ''0'')
          = (if Suc n \<le> max_str_digits then Some 0 else None)"
    using digits_ok_zeros [of n] val len by (simp add: parse_digits_def del: replicate_Suc)
  then show ?thesis
    using st0 by (simp add: py_int_def)
qed

lemma py_int_digit_limit: "py_int (replicate 4301 CHR ''0'') = None"
  using py_int_zeros [of 4300] by (simp add: max_str_digits_def)

lemma py_int_separator: "py_int ([CHR 0x1C] @ ''5'') = None \<and> py_int (''5'' @ [CHR 0x1F]) = None
    \<and> py_int ([CHR 0xA0] @ '' +1_0'' @ [CHR 0x09, CHR 0x85]) = Some 10"
  by code_simp

lemma octet_no_dot: "octet h \<Longrightarrow> CHR ''.'' \<notin> set h"
  using py_int_no_dot [of h] by (auto simp: octet_def split: option.splits)

lemma all_octets_list_all:
  "(case all_octets hs of None \<Rightarrow> False | Some b \<Rightarrow> b) = list_all octet hs"
  by (induction hs) (auto simp: octet_def split: option.splits)

lemma test_active_address_quad:
  "test_active_address (join ''.'' [h1, h2, h3, h4]) port
     = (0 < port \<and> port \<le> 65535 \<and> list_all octet [h1, h2, h3, h4])"
proof (cases "\<forall>h \<in> set [h1, h2, h3, h4]. CHR ''.'' \<notin> set h")
  case True
  then have "split_on CHR ''.'' (join ''.'' [h1, h2, h3, h4]) = [h1, h2, h3, h4]"
    using split_on_join [of "[h1, h2, h3, h4]" "CHR ''.''"] by simp
  then show ?thesis
    using all_octets_list_all [of "[h1, h2, h3, h4]"]
    by (simp add: test_active_address_def del: join.simps all_octets.simps)
next
  case False
  then have len: "length (split_on CHR ''.'' (join ''.'' [h1, h2, h3, h4])) \<noteq> 4"
    using split_on_quad [of h1 h2 h3 h4] by blast
  have "\<not> list_all octet [h1, h2, h3, h4]"
    using False octet_no_dot by auto
  then show ?thesis
    using len by (simp add: test_active_address_def del: join.simps)
qed

lemma six_parts:
  "length xs = 6 \<Longrightarrow> \<exists>h1 h2 h3 h4 p1 p2. xs = [h1, h2, h3, h4, p1, p2]"
  by (auto simp: eval_nat_numeral length_Suc_conv)

lemma computed_port_number:
  "computed_port p1 p2 = port_number [h1, h2, h3, h4, p1, p2]"
  by (simp add: computed_port_def port_number_def push_bit_eq_mult split: option.splits)

lemma handle_port_six:
  assumes "split_on CHR '','' arg = [h1, h2, h3, h4, p1, p2]"
  shows "handle_port peer st arg =
     (if list_all octet [h1, h2, h3, h4] \<and> 0 < port_number [h1, h2, h3, h4, p1, p2]
           \<and> port_number [h1, h2, h3, h4, p1, p2] \<le> 65535
      then reply [''200 PORT command successful.'' @ crlf]
             [ftp_command_event peer st (''PORT '' @ arg)]
             (st\<lparr>st_active_target :=
                   Some (join ''.'' [h1, h2, h3, h4], port_number [h1, h2, h3, h4, p1, p2]),
                 st_passive := None\<rparr>)
      else reply [syntax_error_reply] [] st)"
  using assms
  by (simp add: handle_port_def Let_def test_active_address_quad close_passive_def
      computed_port_number [of p1 p2 h1 h2 h3 h4] del: join.simps)

lemma handle_port_other:
  assumes "length (split_on CHR '','' arg) \<noteq> 6"
  shows "handle_port peer st arg = reply [syntax_error_reply] [] st"
  using assms
  by (auto simp: handle_port_def split: list.splits)

lemma step_port:
  "st_authed st \<Longrightarrow> command_of line = ''PORT'' \<Longrightarrow>
   ftp_step cfg filesystem peer env st line =
     handle_port peer st (snd (parse_command (rstrip_chars crlf line)))"
  by (simp add: ftp_step_def command_of_def Let_def)

lemma reply_codes_differ: "[''200 PORT command successful.'' @ crlf] \<noteq> [syntax_error_reply]"
  by (simp add: syntax_error_reply_def)

section \<open>Claims about PORT\<close>

text \<open>
  C5: the reply to \<open>PORT\<close> is \<open>501 Syntax error in parameters or arguments.\<close> exactly
  when the argument does not have six comma-separated parts, or one of the first four is
  not an integer from 0 to 255, or the port \<open>p1 * 256 + p2\<close> is not in the range from 1
  to 65535; then the state is unchanged.  Otherwise the reply is
  \<open>200 PORT command successful.\<close>, the first four parts joined by dots and the port
  become the active data target, and a pending passive listener is dropped.  In an
  authenticated session a line with the command \<open>PORT\<close> is handled in this way.
\<close>

theorem port_reply:
  "(st_authed st \<and> command_of line = ''PORT'' \<longrightarrow>
      ftp_step cfg filesystem peer env st line =
        handle_port peer st (snd (parse_command (rstrip_chars crlf line)))) \<and>
   (replies (handle_port peer st arg) = [syntax_error_reply] \<longleftrightarrow> port_refused arg) \<and>
   (port_refused arg \<longrightarrow> handle_port peer st arg = reply [syntax_error_reply] [] st) \<and>
   (\<not> port_refused arg \<longrightarrow>
      handle_port peer st arg =
        reply [''200 PORT command successful.'' @ crlf]
          [ftp_command_event peer st (''PORT '' @ arg)]
          (st\<lparr>st_active_target :=
                Some (join ''.'' (take 4 (split_on CHR '','' arg)),
                      port_number (split_on CHR '','' arg)),
              st_passive := None\<rparr>))"
proof (cases "length (split_on CHR '','' arg) = 6")
  case False
  then have "port_refused arg" by (simp add: port_refused_def)
  then show ?thesis
    using handle_port_other [OF False] by (simp add: reply_def step_port)
next
  case True
  then obtain h1 h2 h3 h4 p1 p2 where parts: "split_on CHR '','' arg = [h1, h2, h3, h4, p1, p2]"
    using six_parts by blast
  have refused: "port_refused arg =
      (\<not> (list_all octet [h1, h2, h3, h4] \<and> 0 < port_number [h1, h2, h3, h4, p1, p2]
          \<and> port_number [h1, h2, h3, h4, p1, p2] \<le> 65535))"
    by (auto simp: port_refused_def parts)
  show ?thesis
    using handle_port_six [OF parts, of peer st] reply_codes_differ
    unfolding refused by (simp add: parts reply_def step_port del: join.simps)
qed

theorem port_reply_witness:
  "st_authed logged_in \<and> command_of (''port 10,0,0,5,4,1'' @ crlf) = ''PORT'' \<and>
   ftp_step ftp_sample None ''peer'' quiet logged_in (''port 10,0,0,5,4,1'' @ crlf)
     = handle_port ''peer'' logged_in ''10,0,0,5,4,1'' \<and>
   \<not> port_refused ''10,0,0,5,4,1'' \<and>
   replies (handle_port ''peer'' logged_in ''10,0,0,5,4,1'') = [''200 PORT command successful.'' @ crlf] \<and>
   map_option st_active_target (next_state (handle_port ''peer'' logged_in ''10,0,0,5,4,1''))
     = Some (Some (''10.0.0.5'', 1025)) \<and>
   port_refused ''10,0,0,256,4,1'' \<and>
   handle_port ''peer'' logged_in ''10,0,0,256,4,1'' = reply [syntax_error_reply] [] logged_in \<and>
   port_refused ''10,0,0,5,0,0'' \<and>
   port_refused (''10,0,0,'' @ [CHR 0x1C] @ ''5,4,1'') \<and>
   \<not> port_refused ''10, 0 ,+0,0_5,-1,511''"
proof -
  have au: "st_authed logged_in"
    by code_simp
  have cm: "command_of (''port 10,0,0,5,4,1'' @ crlf) = ''PORT''"
    by code_simp
  have ar: "snd (parse_command (rstrip_chars crlf (''port 10,0,0,5,4,1'' @ crlf))) = ''10,0,0,5,4,1''"
    by code_simp
  have st: "ftp_step ftp_sample None ''peer'' quiet logged_in (''port 10,0,0,5,4,1'' @ crlf)
     = handle_port ''peer'' logged_in ''10,0,0,5,4,1''"
    using port_reply [where st = logged_in and line = "''port 10,0,0,5,4,1'' @ crlf"
        and cfg = ftp_sample and filesystem = None and peer = "''peer''" and env = quiet]
      au cm unfolding ar by blast
  have ok: "\<not> port_refused ''10,0,0,5,4,1''"
    by code_simp
  have bad: "port_refused ''10,0,0,256,4,1''" "port_refused ''10,0,0,5,0,0''"
    "port_refused (''10,0,0,'' @ [CHR 0x1C] @ ''5,4,1'')"
    "\<not> port_refused ''10, 0 ,+0,0_5,-1,511''"
    by code_simp+
  have target: "join ''.'' (take 4 (split_on CHR '','' ''10,0,0,5,4,1'')) = ''10.0.0.5''"
    "port_number (split_on CHR '','' ''10,0,0,5,4,1'') = 1025"
    by code_simp+
  have one: "handle_port ''peer'' logged_in ''10,0,0,5,4,1'' =
        reply [''200 PORT command successful.'' @ crlf]
          [ftp_command_event ''peer'' logged_in (''PORT '' @ ''10,0,0,5,4,1'')]
          (logged_in\<lparr>st_active_target := Some (''10.0.0.5'', 1025), st_passive := None\<rparr>)"
    using port_reply [where st = logged_in and peer = "''peer''" and arg = "''10,0,0,5,4,1''"] ok unfolding target by blast
  have two: "handle_port ''peer'' logged_in ''10,0,0,256,4,1'' = reply [syntax_error_reply] [] logged_in"
    using port_reply [where st = logged_in and peer = "''peer''" and arg = "''10,0,0,256,4,1''"] bad(1) by blast
  show ?thesis
    using au cm st ok bad two unfolding one by (simp add: reply_def)
qed

section \<open>Facts about the event log\<close>

lemma join_avoids:
  "c \<notin> set sep \<Longrightarrow> \<forall>x \<in> set xs. c \<notin> set x \<Longrightarrow> c \<notin> set (join sep xs)"
  by (induction sep xs rule: join.induct) auto

lemma hex_digit_no_newline: "d < 16 \<Longrightarrow> hex_digit d \<noteq> CHR 0x0A"
proof -
  assume "d < 16"
  then have "hex_digit d \<in> set ''0123456789abcdef''"
    unfolding hex_digit_def by (intro nth_mem) simp
  then show ?thesis by auto
qed

lemma newline_code: "(of_char c :: nat) \<noteq> 10 \<Longrightarrow> c \<noteq> CHR 0x0A"
  by auto

lemma json_escape_char_no_newline: "CHR 0x0A \<notin> set (json_escape_char c)"
proof -
  have "of_char c < (32::nat) \<Longrightarrow> hex_digit (of_char c div 16) \<noteq> CHR 0x0A"
    by (rule hex_digit_no_newline) simp
  moreover have "hex_digit (of_char c mod 16) \<noteq> CHR 0x0A"
    by (rule hex_digit_no_newline) simp
  ultimately show ?thesis
    using newline_code [of c] by (auto simp: json_escape_char_def Let_def)
qed

lemma json_quote_no_newline: "CHR 0x0A \<notin> set (json_quote s)"
  using json_escape_char_no_newline by (auto simp: json_quote_def)

lemma json_dumps_no_newline: "CHR 0x0A \<notin> set (json_dumps v)"
proof (induction v rule: json_dumps.induct)
  case 1
  then show ?case by simp
next
  case (2 b)
  then show ?case by simp
next
  case (3 i)
  then show ?case by (simp add: str_int_no_newline)
next
  case (4 s)
  then show ?case by (simp add: json_quote_no_newline)
next
  case (5 xs)
  have "CHR 0x0A \<notin> set (join '', '' (map json_dumps xs))"
    using 5 by (intro join_avoids) auto
  then show ?case by simp
next
  case (6 kvs)
  have "CHR 0x0A \<notin> set (join '', ''
          (map (\<lambda>kv. json_quote (fst kv) @ '': '' @ json_dumps (snd kv)) kvs))"
    using 6 json_quote_no_newline by (intro join_avoids) auto
  then show ?case by simp
qed

lemma dict_keys_simps:
  "dict_keys [] = {}" "dict_keys ((k, v) # d) = insert k (dict_keys d)"
  by (simp_all add: dict_keys_def)

lemma log_payload_keys:
  "dict_keys (log_payload service_name ts ev) = {''ts'', ''service'', ''event''} \<union> dict_keys (snd ev)"
  by (auto simp: log_payload_def dict_keys_dict_update dict_keys_simps)

text \<open>Storing into a dictionary keeps the keys that are there, in their places.\<close>

lemma length_dict_set: "length d \<le> length (dict_set k v d)"
  by (cases "map_of d k") (simp_all add: dict_set_def)

lemma dict_set_keeps_head:
  "n \<le> length d \<Longrightarrow> map fst (take n (dict_set k v d)) = map fst (take n d)"
proof (cases "map_of d k")
  case None
  assume "n \<le> length d"
  then show ?thesis using None by (simp add: dict_set_def)
next
  case (Some old)
  have "map fst (map (\<lambda>kv. if fst kv = k then (k, v) else kv) (take n d)) = map fst (take n d)"
    by (induction "take n d" arbitrary: n d) (auto simp: comp_def)
  then show ?thesis using Some by (simp add: dict_set_def take_map)
qed

lemma dict_update_keeps_head:
  "n \<le> length d \<Longrightarrow> map fst (take n (dict_update d e)) = map fst (take n d)"
proof -
  have "n \<le> length d \<Longrightarrow>
        map fst (take n (foldl (\<lambda>acc kv. dict_set (fst kv) (snd kv) acc) d e)) = map fst (take n d)"
  proof (induction e arbitrary: d)
    case Nil
    then show ?case by simp
  next
    case (Cons x xs)
    have "n \<le> length (dict_set (fst x) (snd x) d)"
      using Cons.prems length_dict_set [of d "fst x" "snd x"] by simp
    then show ?case
      using Cons.IH [of "dict_set (fst x) (snd x) d"] dict_set_keeps_head [OF Cons.prems]
      by simp
  qed
  then show "n \<le> length d \<Longrightarrow> map fst (take n (dict_update d e)) = map fst (take n d)"
    by (simp add: dict_update_def)
qed

lemma dict_update_fresh:
  "distinct (map fst e) \<Longrightarrow> dict_keys d \<inter> dict_keys e = {} \<Longrightarrow> dict_update d e = d @ e"
proof -
  have "distinct (map fst e) \<Longrightarrow> dict_keys d \<inter> dict_keys e = {} \<Longrightarrow>
        foldl (\<lambda>acc kv. dict_set (fst kv) (snd kv) acc) d e = d @ e"
  proof (induction e arbitrary: d)
    case Nil
    then show ?case by simp
  next
    case (Cons x xs)
    have fresh: "map_of d (fst x) = None"
      using Cons.prems(2) by (auto simp: dict_keys_def map_of_eq_None_iff)
    then have step: "dict_set (fst x) (snd x) d = d @ [x]"
      by (simp add: dict_set_def)
    have "dict_keys (d @ [x]) \<inter> dict_keys xs = {}"
      using Cons.prems by (auto simp: dict_keys_def)
    then have "foldl (\<lambda>acc kv. dict_set (fst kv) (snd kv) acc) (d @ [x]) xs = (d @ [x]) @ xs"
      using Cons.prems(1) by (intro Cons.IH) simp_all
    then show ?case using step by simp
  qed
  then show "distinct (map fst e) \<Longrightarrow> dict_keys d \<inter> dict_keys e = {} \<Longrightarrow>
             dict_update d e = d @ e"
    by (simp add: dict_update_def)
qed

text \<open>The keys of a record are plain words: quoting them escapes nothing.\<close>

lemma json_quote_keys:
  "json_quote ''ts'' = quoted ''ts''"
  "json_quote ''service'' = quoted ''service''"
  "json_quote ''event'' = quoted ''event''"
  "json_quote ''client'' = quoted ''client''"
  "json_quote ''protocol'' = quoted ''protocol''"
  "json_quote ''username'' = quoted ''username''"
  "json_quote ''password'' = quoted ''password''"
  "json_quote ''success'' = quoted ''success''"
  by code_simp+

lemma log_event_single_line:
  "last (log_event service_name ts ev) = CHR 0x0A \<and>
   CHR 0x0A \<notin> set (butlast (log_event service_name ts ev))"
  using json_dumps_no_newline [of "JObj (log_payload service_name ts ev)"]
  unfolding log_event_def by (simp only: butlast_snoc last_snoc simp_thms)

lemma log_payload_head:
  "\<exists>v1 v2 v3 more. log_payload service_name ts ev
      = (''ts'', v1) # (''service'', v2) # (''event'', v3) # more"
proof -
  let ?p = "log_payload service_name ts ev"
  have keys: "map fst (take 3 ?p) = [''ts'', ''service'', ''event'']"
    using dict_update_keeps_head
      [of 3 "[(''ts'', JStr ts), (''service'', JStr service_name), (''event'', JStr (fst ev))]" "snd ev"]
    by (simp add: log_payload_def)
  then obtain p1 r1 where a: "?p = p1 # r1"
    by (cases ?p) auto
  then obtain p2 r2 where b: "r1 = p2 # r2"
    using keys by (cases r1) auto
  then obtain p3 r3 where c: "r2 = p3 # r3"
    using keys a by (cases r2) auto
  have "fst p1 = ''ts''" "fst p2 = ''service''" "fst p3 = ''event''"
    using keys a b c by simp_all
  then have "?p = (''ts'', snd p1) # (''service'', snd p2) # (''event'', snd p3) # r3"
    using a b c by (metis prod.collapse)
  then show ?thesis by blast
qed

lemma log_event_members:
  "\<exists>v1 v2 v3 more. log_event service_name ts ev =
      ''{'' @ join '', ''
         (json_member ''ts'' (json_dumps v1) # json_member ''service'' (json_dumps v2)
            # json_member ''event'' (json_dumps v3)
            # map (\<lambda>kv. json_quote (fst kv) @ '': '' @ json_dumps (snd kv)) more)
        @ ''}'' @ [CHR 0x0A]"
proof -
  obtain v1 v2 v3 more where
    "log_payload service_name ts ev = (''ts'', v1) # (''service'', v2) # (''event'', v3) # more"
    using log_payload_head by blast
  then have "log_event service_name ts ev =
      ''{'' @ join '', ''
         (json_member ''ts'' (json_dumps v1) # json_member ''service'' (json_dumps v2)
            # json_member ''event'' (json_dumps v3)
            # map (\<lambda>kv. json_quote (fst kv) @ '': '' @ json_dumps (snd kv)) more)
        @ ''}'' @ [CHR 0x0A]"
    by (simp add: log_event_def json_member_def json_quote_keys del: join.simps)
  then show ?thesis by blast
qed

lemma log_event_plain:
  assumes "distinct (map fst (snd ev))"
    and "dict_keys (snd ev) \<inter> {''ts'', ''service'', ''event''} = {}"
  shows "log_event service_name ts ev =
      ''{'' @ join '', ''
         (json_member ''ts'' (json_quote ts) # json_member ''service'' (json_quote service_name)
            # json_member ''event'' (json_quote (fst ev))
            # map (\<lambda>kv. json_quote (fst kv) @ '': '' @ json_dumps (snd kv)) (snd ev))
        @ ''}'' @ [CHR 0x0A]"
proof -
  have "dict_keys [(''ts'', JStr ts), (''service'', JStr service_name), (''event'', JStr (fst ev))]
          \<inter> dict_keys (snd ev) = {}"
    using assms(2) by (auto simp: dict_keys_simps)
  then have "log_payload service_name ts ev =
      [(''ts'', JStr ts), (''service'', JStr service_name), (''event'', JStr (fst ev))] @ snd ev"
    unfolding log_payload_def by (rule dict_update_fresh [OF assms(1)])
  then show ?thesis
    by (simp add: log_event_def json_member_def json_quote_keys del: join.simps)
qed

lemma login_line:
  "log_event service_name ts
     (''login_attempt'',
      [(''client'', JStr peer), (''protocol'', JStr service_name), (''username'', u),
       (''password'', JStr password), (''success'', JBool success)])
   = login_attempt_line service_name ts peer (json_dumps u) password success"
proof -
  let ?ev = "(''login_attempt'',
      [(''client'', JStr peer), (''protocol'', JStr service_name), (''username'', u),
       (''password'', JStr password), (''success'', JBool success)])"
  have d: "distinct (map fst (snd ?ev))"
    by simp
  have k: "dict_keys (snd ?ev) \<inter> {''ts'', ''service'', ''event''} = {}"
    by (simp add: dict_keys_simps)
  show ?thesis
    unfolding log_event_plain [OF d k] login_attempt_line_def
    by (simp add: json_member_def json_quote_keys del: join.simps)
qed

lemma login_events_if:
  "(c \<Longrightarrow> login_events_only ev a) \<Longrightarrow> (\<not> c \<Longrightarrow> login_events_only ev b) \<Longrightarrow>
   login_events_only ev (if c then a else b)"
  by simp

lemma login_events_reply_none: "login_events_only ev (reply ws [] st')"
  by (simp add: login_events_only_def reply_def)

lemma login_events_reply_command:
  "login_events_only ev (reply ws [ftp_command_event peer' st' c] st'')"
  by (simp add: login_events_only_def reply_def ftp_command_event_def)

lemma login_events_crash: "login_events_only ev (crash ws peer' env)"
  by (simp add: login_events_only_def crash_def)

lemma login_events_user: "login_events_only ev (handle_user cfg st' arg)"
  by (simp add: handle_user_def Let_def login_events_reply_none)

lemma login_events_pass:
  "login_events_only (login_event peer st password (pass_success cfg st password))
     (handle_pass cfg filesystem peer st password)"
  by (auto simp: handle_pass_def Let_def login_events_only_def reply_def split: option.splits)

lemma login_events_port: "login_events_only ev (handle_port peer' st' arg)"
  by (simp add: handle_port_def Let_def login_events_reply_none login_events_reply_command
      split: list.splits)

lemma login_events_pasv: "login_events_only ev (handle_pasv peer' env st')"
  by (simp add: handle_pasv_def Let_def login_events_reply_none login_events_crash
      split: option.splits list.splits prod.splits)

lemma login_events_cwd: "login_events_only ev (handle_cwd filesystem peer' st' arg)"
  by (simp add: handle_cwd_def Let_def login_events_reply_none login_events_reply_command
      split: option.splits sum.splits)

lemma login_events_transfer:
  "fst ev' \<noteq> ''login_attempt'' \<Longrightarrow>
   login_events_only ev (transfer_lines peer' env ch st' payload ev')"
  by (auto simp: transfer_lines_def login_events_only_def reply_def crash_def
      split: option.splits bool.splits)

lemma fst_command_event: "fst (ftp_command_event peer st c) \<noteq> ''login_attempt''"
  by (simp add: ftp_command_event_def)

lemma login_events_quit:
  "login_events_only ev \<lparr>replies = ws, logged = [], data_lines = [], next_state = None\<rparr>"
  by (simp add: login_events_only_def)

lemma login_events_list:
  "login_events_only ev (handle_list cfg filesystem peer' env st' command_upper arg)"
  by (simp add: handle_list_def Let_def login_events_reply_none login_events_crash
      login_events_transfer fst_command_event login_events_quit
      split: prepared.splits sum.splits option.splits)

lemma login_events_retr:
  "login_events_only ev (handle_retr filesystem peer' env st' arg)"
  by (simp add: handle_retr_def Let_def login_events_reply_none login_events_crash
      login_events_transfer login_events_quit
      split: prepared.splits sum.splits option.splits)

lemma login_events_other:
  "login_events_only ev (handle_other cfg peer' st' command_upper decoded)"
  by (simp add: handle_other_def login_events_reply_command)

text \<open>In the command loop an event named \<open>login_attempt\<close> comes from \<open>PASS\<close> only, with
  the password of the line and the outcome of the check.\<close>

lemma login_events_step:
  "login_events_only
     (login_event peer st (snd (parse_command (rstrip_chars crlf line)))
        (pass_success cfg st (snd (parse_command (rstrip_chars crlf line)))))
     (ftp_step cfg filesystem peer env st line)"
  unfolding ftp_step_def Let_def
  by (intro login_events_if login_events_reply_none login_events_reply_command
      login_events_user login_events_pass login_events_port login_events_pasv
      login_events_cwd login_events_list login_events_retr login_events_other
      login_events_quit)

section \<open>Claims about the event log\<close>

text \<open>
  C8: every record that \<open>log_event\<close> writes to a log file is one line: a text without a
  line feed, followed by a line feed.  The text is a JSON object whose first members
  have the keys \<open>ts\<close>, \<open>service\<close> and \<open>event\<close>; when the details of the event are given
  under distinct names other than these three, the members are the time stamp, the
  name of the service and the name of the event, followed by the details.  The record
  written for a \<open>login_attempt\<close> event of SSH, of Telnet and of FTP (where such an event
  comes from \<open>PASS\<close> only) is the line with the members \<open>ts\<close>, \<open>service\<close>, \<open>event\<close>,
  \<open>client\<close>, \<open>protocol\<close>, \<open>username\<close>, \<open>password\<close> and \<open>success\<close>, holding the user
  name and the password that were tried and the outcome.
\<close>

theorem log_event_line:
  "(last (log_event service_name ts ev) = CHR 0x0A \<and>
    CHR 0x0A \<notin> set (butlast (log_event service_name ts ev))) \<and>
   (\<exists>v1 v2 v3 more. log_event service_name ts ev =
      ''{'' @ join '', ''
         (json_member ''ts'' (json_dumps v1) # json_member ''service'' (json_dumps v2)
            # json_member ''event'' (json_dumps v3)
            # map (\<lambda>kv. json_quote (fst kv) @ '': '' @ json_dumps (snd kv)) more)
        @ ''}'' @ [CHR 0x0A]) \<and>
   (distinct (map fst (snd ev)) \<and> dict_keys (snd ev) \<inter> {''ts'', ''service'', ''event''} = {} \<longrightarrow>
    log_event service_name ts ev =
      ''{'' @ join '', ''
         (json_member ''ts'' (json_quote ts) # json_member ''service'' (json_quote service_name)
            # json_member ''event'' (json_quote (fst ev))
            # map (\<lambda>kv. json_quote (fst kv) @ '': '' @ json_dumps (snd kv)) (snd ev))
        @ ''}'' @ [CHR 0x0A]) \<and>
   (fst (snd (ssh_validate_password us peer username password)) = ''login_attempt'' \<and>
    log_event ''ssh'' ts (snd (ssh_validate_password us peer username password))
      = login_attempt_line ''ssh'' ts peer (json_quote username) password
          (check_credentials us username password)) \<and>
   (fst (snd (telnet_login_attempt us peer username password)) = ''login_attempt'' \<and>
    log_event ''telnet'' ts (snd (telnet_login_attempt us peer username password))
      = login_attempt_line ''telnet'' ts peer (json_quote username) password
          (check_credentials us username password)) \<and>
   (\<forall>e \<in> set (logged (ftp_step cfg filesystem peer env st line)).
      fst e = ''login_attempt'' \<longrightarrow>
        log_event ''ftp'' ts e
          = login_attempt_line ''ftp'' ts peer (json_dumps (json_opt_str (st_username st)))
              (snd (parse_command (rstrip_chars crlf line)))
              (pass_success cfg st (snd (parse_command (rstrip_chars crlf line)))))"
proof -
  have ssh: "fst (snd (ssh_validate_password us peer username password)) = ''login_attempt'' \<and>
    log_event ''ssh'' ts (snd (ssh_validate_password us peer username password))
      = login_attempt_line ''ssh'' ts peer (json_quote username) password
          (check_credentials us username password)"
    using login_line [of "''ssh''" ts peer "JStr username" password
        "check_credentials us username password"]
    by (simp add: ssh_validate_password_def Let_def)
  have telnet: "fst (snd (telnet_login_attempt us peer username password)) = ''login_attempt'' \<and>
    log_event ''telnet'' ts (snd (telnet_login_attempt us peer username password))
      = login_attempt_line ''telnet'' ts peer (json_quote username) password
          (check_credentials us username password)"
    using login_line [of "''telnet''" ts peer "JStr username" password
        "check_credentials us username password"]
    by (simp add: telnet_login_attempt_def Let_def)
  have ftp: "\<forall>e \<in> set (logged (ftp_step cfg filesystem peer env st line)).
      fst e = ''login_attempt'' \<longrightarrow>
        log_event ''ftp'' ts e
          = login_attempt_line ''ftp'' ts peer (json_dumps (json_opt_str (st_username st)))
              (snd (parse_command (rstrip_chars crlf line)))
              (pass_success cfg st (snd (parse_command (rstrip_chars crlf line))))"
  proof (intro ballI impI)
    fix e
    assume "e \<in> set (logged (ftp_step cfg filesystem peer env st line))"
      and "fst e = ''login_attempt''"
    then have "e = login_event peer st (snd (parse_command (rstrip_chars crlf line)))
                     (pass_success cfg st (snd (parse_command (rstrip_chars crlf line))))"
      using login_events_step [of peer st line cfg filesystem env]
      unfolding login_events_only_def by blast
    then show "log_event ''ftp'' ts e
          = login_attempt_line ''ftp'' ts peer (json_dumps (json_opt_str (st_username st)))
              (snd (parse_command (rstrip_chars crlf line)))
              (pass_success cfg st (snd (parse_command (rstrip_chars crlf line))))"
      using login_line [of "''ftp''" ts peer "json_opt_str (st_username st)"]
      by (simp add: login_event_def)
  qed
  have plain: "distinct (map fst (snd ev)) \<and>
      dict_keys (snd ev) \<inter> {''ts'', ''service'', ''event''} = {} \<longrightarrow>
    log_event service_name ts ev =
      ''{'' @ join '', ''
         (json_member ''ts'' (json_quote ts) # json_member ''service'' (json_quote service_name)
            # json_member ''event'' (json_quote (fst ev))
            # map (\<lambda>kv. json_quote (fst kv) @ '': '' @ json_dumps (snd kv)) (snd ev))
        @ ''}'' @ [CHR 0x0A]"
    using log_event_plain [of ev service_name ts] by blast
  show ?thesis
    by (rule conjI [OF log_event_single_line conjI [OF log_event_members
          conjI [OF plain conjI [OF ssh conjI [OF telnet ftp]]]]])
qed

theorem log_event_line_witness:
  "logged (ftp_step ftp_sample None ''10.0.0.5:4711'' quiet logged_in (''PASS wrong'' @ crlf))
     = [login_event ''10.0.0.5:4711'' logged_in ''wrong'' False] \<and>
   fst (login_event ''10.0.0.5:4711'' logged_in ''wrong'' False) = ''login_attempt'' \<and>
   log_event ''ftp'' ''2026-11-03T10:00:00Z'' (login_event ''10.0.0.5:4711'' logged_in ''wrong'' False)
     = ''{'' @ quoted ''ts'' @ '': '' @ quoted ''2026-11-03T10:00:00Z'' @ '', ''
         @ quoted ''service'' @ '': '' @ quoted ''ftp'' @ '', ''
         @ quoted ''event'' @ '': '' @ quoted ''login_attempt'' @ '', ''
         @ quoted ''client'' @ '': '' @ quoted ''10.0.0.5:4711'' @ '', ''
         @ quoted ''protocol'' @ '': '' @ quoted ''ftp'' @ '', ''
         @ quoted ''username'' @ '': '' @ quoted ''ftp'' @ '', ''
         @ quoted ''password'' @ '': '' @ quoted ''wrong'' @ '', ''
         @ quoted ''success'' @ '': false}'' @ [CHR 0x0A]"
proof -
  have c: "command_of (''PASS wrong'' @ crlf) = ''PASS''"
    by code_simp
  have a: "snd (parse_command (rstrip_chars crlf (''PASS wrong'' @ crlf))) = ''wrong''"
    by code_simp
  have p: "\<not> pass_accepted ftp_sample logged_in ''wrong''"
    "pass_success ftp_sample logged_in ''wrong'' = False"
    by code_simp+
  have l: "logged (ftp_step ftp_sample None ''10.0.0.5:4711'' quiet logged_in (''PASS wrong'' @ crlf))
     = [login_event ''10.0.0.5:4711'' logged_in ''wrong'' False]"
    unfolding step_pass [OF c] a handle_pass_refused [OF p(1)] p(2) by (simp add: reply_def)
  have n: "fst (login_event ''10.0.0.5:4711'' logged_in ''wrong'' False) = ''login_attempt''"
    by (simp add: login_event_def)
  have v: "login_attempt_line ''ftp'' ''2026-11-03T10:00:00Z'' ''10.0.0.5:4711''
             (json_dumps (json_opt_str (st_username logged_in))) ''wrong'' False
     = ''{'' @ quoted ''ts'' @ '': '' @ quoted ''2026-11-03T10:00:00Z'' @ '', ''
         @ quoted ''service'' @ '': '' @ quoted ''ftp'' @ '', ''
         @ quoted ''event'' @ '': '' @ quoted ''login_attempt'' @ '', ''
         @ quoted ''client'' @ '': '' @ quoted ''10.0.0.5:4711'' @ '', ''
         @ quoted ''protocol'' @ '': '' @ quoted ''ftp'' @ '', ''
         @ quoted ''username'' @ '': '' @ quoted ''ftp'' @ '', ''
         @ quoted ''password'' @ '': '' @ quoted ''wrong'' @ '', ''
         @ quoted ''success'' @ '': false}'' @ [CHR 0x0A]"
    by code_simp
  have "\<forall>e \<in> set (logged (ftp_step ftp_sample None ''10.0.0.5:4711'' quiet logged_in (''PASS wrong'' @ crlf))).
      fst e = ''login_attempt'' \<longrightarrow>
        log_event ''ftp'' ''2026-11-03T10:00:00Z'' e
          = login_attempt_line ''ftp'' ''2026-11-03T10:00:00Z'' ''10.0.0.5:4711''
              (json_dumps (json_opt_str (st_username logged_in)))
              (snd (parse_command (rstrip_chars crlf (''PASS wrong'' @ crlf))))
              (pass_success ftp_sample logged_in
                 (snd (parse_command (rstrip_chars crlf (''PASS wrong'' @ crlf)))))"
    using log_event_line [of "''ftp''" "''2026-11-03T10:00:00Z''"
        "login_event ''10.0.0.5:4711'' logged_in ''wrong'' False" "[]" "''10.0.0.5:4711''" "''u''" "''p''"
        ftp_sample None quiet logged_in "''PASS wrong'' @ crlf"]
    by (rule conjunct2 [OF conjunct2 [OF conjunct2 [OF conjunct2 [OF conjunct2]]]])
  then have k: "log_event ''ftp'' ''2026-11-03T10:00:00Z''
                  (login_event ''10.0.0.5:4711'' logged_in ''wrong'' False)
     = ''{'' @ quoted ''ts'' @ '': '' @ quoted ''2026-11-03T10:00:00Z'' @ '', ''
         @ quoted ''service'' @ '': '' @ quoted ''ftp'' @ '', ''
         @ quoted ''event'' @ '': '' @ quoted ''login_attempt'' @ '', ''
         @ quoted ''client'' @ '': '' @ quoted ''10.0.0.5:4711'' @ '', ''
         @ quoted ''protocol'' @ '': '' @ quoted ''ftp'' @ '', ''
         @ quoted ''username'' @ '': '' @ quoted ''ftp'' @ '', ''
         @ quoted ''password'' @ '': '' @ quoted ''wrong'' @ '', ''
         @ quoted ''success'' @ '': false}'' @ [CHR 0x0A]"
    unfolding l a p(2) v using n by simp
  show ?thesis
    by (rule conjI [OF l conjI [OF n k]])
qed

end
